theory Spec2Isabelle
  imports Complex_Main "HOL-Library.Word"
begin

unbundle bit_operations_syntax

section \<open>Scalars, vectors and matrices\<close>

text \<open>
  The program computes on C \<^verbatim>\<open>float\<close>s. The definitions below are polymorphic in the
  scalar type \<open>'a\<close> and use only the operation symbols (\<open>0\<close>, \<open>1\<close>, \<open>+\<close>, \<open>-\<close>, \<open>*\<close>,
  \<open>/\<close>, \<open><\<close>) without any algebraic law, in the order in which the code applies them.
  A theorem stated for every \<open>'a\<close> of such a sort therefore holds whatever the
  arithmetic is, rounding included. A theorem that needs the laws of a ring or a field
  says so in its sort constraint and is a statement about exact arithmetic.

  The vector, quaternion and matrix types and the operations on them come from the glm
  header library, which the program includes and which is not part of the repository.
  They are written here as glm defines them: a \<open>mat4\<close> is four columns, \<open>m[c][r]\<close> is
  row \<open>r\<close> of column \<open>c\<close>.
\<close>

datatype 'a vec3 = Vec3 (v3x: 'a) (v3y: 'a) (v3z: 'a)

datatype 'a vec4 = Vec4 (v4x: 'a) (v4y: 'a) (v4z: 'a) (v4w: 'a)

text \<open>\<^verbatim>\<open>glm::quat(w, x, y, z)\<close>: the constructor takes the real part first.\<close>

datatype 'a quat = Quat (qw: 'a) (qx: 'a) (qy: 'a) (qz: 'a)

datatype 'a mat4 = Mat4 (col0: "'a vec4") (col1: "'a vec4") (col2: "'a vec4") (col3: "'a vec4")

definition vec4_scale :: "'a::times vec4 \<Rightarrow> 'a \<Rightarrow> 'a vec4" where
  "vec4_scale v s = Vec4 (v4x v * s) (v4y v * s) (v4z v * s) (v4w v * s)"

definition vec4_add :: "'a::plus vec4 \<Rightarrow> 'a vec4 \<Rightarrow> 'a vec4" where
  "vec4_add u v = Vec4 (v4x u + v4x v) (v4y u + v4y v) (v4z u + v4z v) (v4w u + v4w v)"

definition vec4_sub :: "'a::minus vec4 \<Rightarrow> 'a vec4 \<Rightarrow> 'a vec4" where
  "vec4_sub u v = Vec4 (v4x u - v4x v) (v4y u - v4y v) (v4z u - v4z v) (v4w u - v4w v)"

definition vec4_mul :: "'a::times vec4 \<Rightarrow> 'a vec4 \<Rightarrow> 'a vec4" where
  "vec4_mul u v = Vec4 (v4x u * v4x v) (v4y u * v4y v) (v4z u * v4z v) (v4w u * v4w v)"

text \<open>\<^verbatim>\<open>glm::mat4(1.0f)\<close>, the identity matrix.\<close>

definition mat4_identity :: "'a::{zero,one} mat4" where
  "mat4_identity = Mat4 (Vec4 1 0 0 0) (Vec4 0 1 0 0) (Vec4 0 0 1 0) (Vec4 0 0 0 1)"

text \<open>
  \<^verbatim>\<open>operator*(mat4, mat4)\<close>: column \<open>j\<close> of the product is
  \<^verbatim>\<open>A[0] * B[j][0] + A[1] * B[j][1] + A[2] * B[j][2] + A[3] * B[j][3]\<close>, summed from the left.
\<close>

definition mat4_mul_col :: "'a::{plus,times} mat4 \<Rightarrow> 'a vec4 \<Rightarrow> 'a vec4" where
  "mat4_mul_col a b =
     vec4_add (vec4_add (vec4_add (vec4_scale (col0 a) (v4x b)) (vec4_scale (col1 a) (v4y b)))
                        (vec4_scale (col2 a) (v4z b)))
              (vec4_scale (col3 a) (v4w b))"

definition mat4_mul :: "'a::{plus,times} mat4 \<Rightarrow> 'a mat4 \<Rightarrow> 'a mat4" where
  "mat4_mul a b =
     Mat4 (mat4_mul_col a (col0 b)) (mat4_mul_col a (col1 b))
          (mat4_mul_col a (col2 b)) (mat4_mul_col a (col3 b))"

text \<open>
  \<^verbatim>\<open>glm::translate(v)\<close> is \<^verbatim>\<open>translate(mat4(1), v)\<close>: the last column becomes
  \<^verbatim>\<open>m[0] * v[0] + m[1] * v[1] + m[2] * v[2] + m[3]\<close>.
\<close>

definition glm_translate :: "'a::{zero,one,plus,times} vec3 \<Rightarrow> 'a mat4" where
  "glm_translate v =
     (let m = mat4_identity in
      Mat4 (col0 m) (col1 m) (col2 m)
        (vec4_add (vec4_add (vec4_add (vec4_scale (col0 m) (v3x v)) (vec4_scale (col1 m) (v3y v)))
                            (vec4_scale (col2 m) (v3z v)))
                  (col3 m)))"

text \<open>\<^verbatim>\<open>glm::scale(v)\<close> is \<^verbatim>\<open>scale(mat4(1), v)\<close>: column \<open>i\<close> is \<^verbatim>\<open>m[i] * v[i]\<close> for \<open>i < 3\<close>.\<close>

definition glm_scale :: "'a::{zero,one,times} vec3 \<Rightarrow> 'a mat4" where
  "glm_scale v =
     (let m = mat4_identity in
      Mat4 (vec4_scale (col0 m) (v3x v)) (vec4_scale (col1 m) (v3y v))
           (vec4_scale (col2 m) (v3z v)) (col3 m))"

text \<open>
  \<^verbatim>\<open>glm::mat4_cast(q)\<close>: the rotation matrix of a quaternion, embedded in a \<open>mat4\<close>. The
  constant \<^verbatim>\<open>T(2)\<close> is written \<open>1 + 1\<close>.
\<close>

definition two :: "'a::{one,plus}" where
  "two = 1 + 1"

definition glm_mat4_cast :: "'a::{zero,one,plus,minus,times} quat \<Rightarrow> 'a mat4" where
  "glm_mat4_cast q =
     (let qxx = qx q * qx q; qyy = qy q * qy q; qzz = qz q * qz q;
          qxz = qx q * qz q; qxy = qx q * qy q; qyz = qy q * qz q;
          qwx = qw q * qx q; qwy = qw q * qy q; qwz = qw q * qz q
      in Mat4 (Vec4 (1 - two * (qyy + qzz)) (two * (qxy + qwz)) (two * (qxz - qwy)) 0)
              (Vec4 (two * (qxy - qwz)) (1 - two * (qxx + qzz)) (two * (qyz + qwx)) 0)
              (Vec4 (two * (qxz + qwy)) (two * (qyz - qwx)) (1 - two * (qxx + qyy)) 0)
              (Vec4 0 0 0 1))"

text \<open>
  \<^verbatim>\<open>glm::inverse(mat4)\<close>: the adjugate by 2x2 sub-determinants, divided by the
  determinant \<^verbatim>\<open>Dot1\<close>. glm divides without a test. When the determinant is zero the
  IEEE quotient \<^verbatim>\<open>1 / Dot1\<close> is an infinity and every entry of the result is an
  infinity or a NaN, whereas HOL would return \<open>1 / 0 = 0\<close>. The model writes that case
  out: such a matrix is \<open>NonFinite\<close>.
\<close>

datatype 'a fmat4 = Finite "'a mat4" | NonFinite

definition glm_inverse_adjugate :: "'a::{one,plus,minus,uminus,times} mat4 \<Rightarrow> 'a mat4" where
  "glm_inverse_adjugate m =
     (case m of Mat4 (Vec4 m00 m01 m02 m03) (Vec4 m10 m11 m12 m13)
                     (Vec4 m20 m21 m22 m23) (Vec4 m30 m31 m32 m33) \<Rightarrow>
      let Coef00 = m22 * m33 - m32 * m23;
          Coef02 = m12 * m33 - m32 * m13;
          Coef03 = m12 * m23 - m22 * m13;
          Coef04 = m21 * m33 - m31 * m23;
          Coef06 = m11 * m33 - m31 * m13;
          Coef07 = m11 * m23 - m21 * m13;
          Coef08 = m21 * m32 - m31 * m22;
          Coef10 = m11 * m32 - m31 * m12;
          Coef11 = m11 * m22 - m21 * m12;
          Coef12 = m20 * m33 - m30 * m23;
          Coef14 = m10 * m33 - m30 * m13;
          Coef15 = m10 * m23 - m20 * m13;
          Coef16 = m20 * m32 - m30 * m22;
          Coef18 = m10 * m32 - m30 * m12;
          Coef19 = m10 * m22 - m20 * m12;
          Coef20 = m20 * m31 - m30 * m21;
          Coef22 = m10 * m31 - m30 * m11;
          Coef23 = m10 * m21 - m20 * m11;
          Fac0 = Vec4 Coef00 Coef00 Coef02 Coef03;
          Fac1 = Vec4 Coef04 Coef04 Coef06 Coef07;
          Fac2 = Vec4 Coef08 Coef08 Coef10 Coef11;
          Fac3 = Vec4 Coef12 Coef12 Coef14 Coef15;
          Fac4 = Vec4 Coef16 Coef16 Coef18 Coef19;
          Fac5 = Vec4 Coef20 Coef20 Coef22 Coef23;
          Vec0 = Vec4 m10 m00 m00 m00;
          Vec1 = Vec4 m11 m01 m01 m01;
          Vec2 = Vec4 m12 m02 m02 m02;
          Vec3 = Vec4 m13 m03 m03 m03;
          Inv0 = vec4_add (vec4_sub (vec4_mul Vec1 Fac0) (vec4_mul Vec2 Fac1)) (vec4_mul Vec3 Fac2);
          Inv1 = vec4_add (vec4_sub (vec4_mul Vec0 Fac0) (vec4_mul Vec2 Fac3)) (vec4_mul Vec3 Fac4);
          Inv2 = vec4_add (vec4_sub (vec4_mul Vec0 Fac1) (vec4_mul Vec1 Fac3)) (vec4_mul Vec3 Fac5);
          Inv3 = vec4_add (vec4_sub (vec4_mul Vec0 Fac2) (vec4_mul Vec1 Fac4)) (vec4_mul Vec2 Fac5);
          SignA = Vec4 1 (- 1) 1 (- 1);
          SignB = Vec4 (- 1) 1 (- 1) 1
      in Mat4 (vec4_mul Inv0 SignA) (vec4_mul Inv1 SignB) (vec4_mul Inv2 SignA) (vec4_mul Inv3 SignB))"

definition glm_inverse_determinant :: "'a::{one,plus,minus,uminus,times} mat4 \<Rightarrow> 'a" where
  "glm_inverse_determinant m =
     (let Inverse = glm_inverse_adjugate m;
          Row0 = Vec4 (v4x (col0 Inverse)) (v4x (col1 Inverse)) (v4x (col2 Inverse)) (v4x (col3 Inverse));
          Dot0 = vec4_mul (col0 m) Row0
      in (v4x Dot0 + v4y Dot0) + (v4z Dot0 + v4w Dot0))"

text \<open>\<^verbatim>\<open>operator*(mat4, T)\<close>: every column times the scalar.\<close>

definition mat4_smult :: "'a::times mat4 \<Rightarrow> 'a \<Rightarrow> 'a mat4" where
  "mat4_smult a k =
     Mat4 (vec4_scale (col0 a) k) (vec4_scale (col1 a) k) (vec4_scale (col2 a) k) (vec4_scale (col3 a) k)"

definition glm_inverse :: "'a::{zero,one,plus,minus,uminus,times,inverse} mat4 \<Rightarrow> 'a fmat4" where
  "glm_inverse m =
     (let Inverse = glm_inverse_adjugate m;
          Dot1 = glm_inverse_determinant m
      in if Dot1 = 0 then NonFinite
         else let OneOverDeterminant = 1 / Dot1
              in Finite (mat4_smult Inverse OneOverDeterminant))"

text \<open>A product with a non-finite factor is non-finite.\<close>

definition fmat4_mul :: "'a::{plus,times} mat4 \<Rightarrow> 'a fmat4 \<Rightarrow> 'a fmat4" where
  "fmat4_mul a b = (case b of NonFinite \<Rightarrow> NonFinite | Finite b' \<Rightarrow> Finite (mat4_mul a b'))"

section \<open>Avatar SDK data\<close>

text \<open>
  The structures of \<^verbatim>\<open>OVR_Avatar.h\<close> that the program reads. The header is not part of
  the repository; the fields are the ones the program accesses. A fixed-size C array
  with a separate count is a list; reading at or beyond the end of the list is the error
  \<open>OutOfBounds\<close>.
\<close>

datatype 'a ovrAvatarVector3f = Vector3f (vx: 'a) (vy: 'a) (vz: 'a)

datatype 'a ovrAvatarQuatf = Quatf (ox: 'a) (oy: 'a) (oz: 'a) (ow: 'a)

record 'a ovrAvatarTransform =
  position :: "'a ovrAvatarVector3f"
  orientation :: "'a ovrAvatarQuatf"
  scale :: "'a ovrAvatarVector3f"

record 'a ovrAvatarSkinnedMeshPose =
  jointCount :: nat
  jointTransform :: "'a ovrAvatarTransform list"
  jointParents :: "int list"

text \<open>What the C++ program does where the model cannot continue.\<close>

datatype error = NullDeref | OutOfBounds | BadCast

section \<open>Math helpers\<close>

text \<open>\<^verbatim>\<open>_glmFromOvrAvatarTransform\<close>: translation times rotation times scale.\<close>

definition glmFromOvrAvatarTransform ::
  "'a::{zero,one,plus,minus,times} ovrAvatarTransform \<Rightarrow> 'a mat4" where
  "glmFromOvrAvatarTransform transform =
     (let position' = Vec3 (vx (position transform)) (vy (position transform)) (vz (position transform));
          orientation' = Quat (ow (orientation transform)) (ox (orientation transform))
                              (oy (orientation transform)) (oz (orientation transform));
          scale' = Vec3 (vx (scale transform)) (vy (scale transform)) (vz (scale transform))
      in mat4_mul (mat4_mul (glm_translate position') (glm_mat4_cast orientation')) (glm_scale scale'))"

text \<open>
  \<^verbatim>\<open>_computeWorldPose\<close>. The loop runs \<open>i\<close> from 0 to \<open>jointCount - 1\<close>; the output
  buffer \<open>worldPose\<close> is the caller's and keeps its old contents where the loop does not
  write. Next to the buffer the model returns the indices it assigned, in the order of
  the assignments.
\<close>

function computeWorldPose_loop ::
  "'a::{zero,one,plus,minus,times} ovrAvatarSkinnedMeshPose \<Rightarrow> nat \<Rightarrow> 'a mat4 list \<times> nat list
     \<Rightarrow> error + 'a mat4 list \<times> nat list" where
  "computeWorldPose_loop localPose i (worldPose, written) =
     (if i < jointCount localPose then
        (if length (jointTransform localPose) \<le> i \<or> length (jointParents localPose) \<le> i
         then Inl OutOfBounds
         else
           let local = glmFromOvrAvatarTransform (jointTransform localPose ! i);
               parentIndex = jointParents localPose ! i
           in if parentIndex < 0 then
                (if length worldPose \<le> i then Inl OutOfBounds
                 else computeWorldPose_loop localPose (Suc i)
                        (worldPose[i := local], written @ [i]))
              else
                (if length worldPose \<le> nat parentIndex \<or> length worldPose \<le> i then Inl OutOfBounds
                 else computeWorldPose_loop localPose (Suc i)
                        (worldPose[i := mat4_mul (worldPose ! nat parentIndex) local], written @ [i])))
      else Inr (worldPose, written))"
  by pat_completeness auto
termination
  by (relation "measure (\<lambda>(localPose, i, _). jointCount localPose - i)") auto

declare computeWorldPose_loop.simps [simp del]

definition computeWorldPose ::
  "'a::{zero,one,plus,minus,times} ovrAvatarSkinnedMeshPose \<Rightarrow> 'a mat4 list
     \<Rightarrow> error + 'a mat4 list \<times> nat list" where
  "computeWorldPose localPose worldPose = computeWorldPose_loop localPose 0 (worldPose, [])"


section \<open>GL context and asset cache\<close>

text \<open>
  The OpenGL context is outside the program. What the program does to it is the sequence
  of GL calls it issues; the model appends each call to a trace. A uniform is named by the
  program handle and the uniform name given to \<^verbatim>\<open>glGetUniformLocation\<close>. No GL call stops
  the program.
\<close>

type_synonym GLuint = nat

type_synonym ovrAvatarAssetID = "64 word"

datatype depth_func = GL_LESS | GL_EQUAL | GL_ALWAYS

datatype compressed_format = GL_COMPRESSED_RGBA_S3TC_DXT1_EXT | GL_COMPRESSED_RGBA_S3TC_DXT5_EXT

datatype tex_parameter = MIN_FILTER_LINEAR | MAG_FILTER_LINEAR | WRAP_S_REPEAT | WRAP_T_REPEAT

datatype 'a gl_call =
    UseProgram GLuint
  | ActiveTexture int
  | BindTexture GLuint
  | Uniform1i GLuint string int
  | Uniform1f GLuint string 'a
  | Uniform1iv GLuint string "int list"
  | Uniform3fv GLuint string "'a vec3"
  | Uniform4fv GLuint string "'a vec4 list"
  | UniformMatrix4fv GLuint string "'a fmat4 list"
  | BindVertexArray GLuint
  | BindBuffer GLuint
  | BufferData "('a vec3 \<times> 'a vec4) list"
  | VertexAttribPointer nat nat
  | EnableVertexAttribArray nat
  | DrawArrays nat nat
  | DepthFunc depth_func
  | DepthMask bool
  | ColorMaski nat bool bool bool bool
  | DrawElements nat
  | TexImage2D "32 word" "32 word" "32 word" "32 word"
  | CompressedTexImage2D "32 word" compressed_format "32 word" "32 word" "32 word" "32 word"
  | TexParameteri tex_parameter

text \<open>
  \<open>TexImage2D level width height offset\<close> and
  \<open>CompressedTexImage2D level format width height imageSize offset\<close> carry the 32-bit
  values the program passes; \<open>offset\<close> is the distance of the data pointer from
  \<^verbatim>\<open>data->textureData\<close>.
\<close>

record 'a MeshData =
  vertexArray :: GLuint
  vertexBuffer :: GLuint
  elementBuffer :: GLuint
  elementCount :: nat
  bindPose :: "'a mat4 list"
  inverseBindPose :: "'a fmat4 list"

record TextureData =
  textureID :: GLuint

text \<open>
  The values of \<^verbatim>\<open>_assetMap\<close> are \<^verbatim>\<open>void*\<close>: null, or the address of a \<open>MeshData\<close> or a
  \<open>TextureData\<close> made by a loader. The objects are not changed after loading, so the
  model keeps the object in place of its address.
\<close>

datatype 'a asset_ptr = NullPtr | MeshPtr "'a MeshData" | TexturePtr TextureData

text \<open>
  The static state of the program that rendering reads or writes, and the GL trace.
  \<open>alloca_fill\<close> stands for the content of memory returned by \<^verbatim>\<open>alloca\<close>, which the
  program does not initialise.
\<close>

record 'a gstate =
  assetMap :: "ovrAvatarAssetID \<rightharpoonup> 'a asset_ptr"
  gl :: "'a gl_call list"
  elapsedSeconds :: 'a
  skinnedMeshProgram :: GLuint
  skinnedMeshPBSProgram :: GLuint
  debugLineProgram :: GLuint
  debugVertexArray :: GLuint
  alloca_fill :: "'a mat4"

definition glcalls :: "'a gl_call list \<Rightarrow> 'a gstate \<Rightarrow> 'a gstate" where
  "glcalls cs s = s\<lparr>gl := gl s @ cs\<rparr>"

text \<open>Sequencing: the first step that stops the program stops the sequence.\<close>

definition bind_err :: "error + 'b \<Rightarrow> ('b \<Rightarrow> error + 'c) \<Rightarrow> error + 'c" where
  "bind_err r f = (case r of Inl e \<Rightarrow> Inl e | Inr v \<Rightarrow> f v)"

fun seq_err :: "('s \<Rightarrow> error + 's) list \<Rightarrow> 's \<Rightarrow> error + 's" where
  "seq_err [] s = Inr s"
| "seq_err (f # fs) s = bind_err (f s) (seq_err fs)"

definition ok :: "('s \<Rightarrow> 's) \<Rightarrow> 's \<Rightarrow> error + 's" where
  "ok f s = Inr (f s)"

text \<open>
  \<^verbatim>\<open>_assetMap[id]\<close>: \<^verbatim>\<open>std::map::operator[]\<close> returns the stored value; for a key that
  is not in the map it first inserts the key with a value-initialised value, here the
  null pointer.
\<close>

definition assetMap_index :: "ovrAvatarAssetID \<Rightarrow> 'a gstate \<Rightarrow> 'a asset_ptr \<times> 'a gstate" where
  "assetMap_index assetID s =
     (case assetMap s assetID of
        None \<Rightarrow> (NullPtr, s\<lparr>assetMap := (assetMap s)(assetID \<mapsto> NullPtr)\<rparr>)
      | Some data \<Rightarrow> (data, s))"

text \<open>
  Reading a field through a cast pointer: a null pointer stops the program; a pointer to
  an object of the other type is a read of foreign memory, which the model also stops.
\<close>

definition deref_TextureData :: "'a asset_ptr \<Rightarrow> error + TextureData" where
  "deref_TextureData data =
     (case data of NullPtr \<Rightarrow> Inl NullDeref | MeshPtr _ \<Rightarrow> Inl BadCast | TexturePtr t \<Rightarrow> Inr t)"

definition deref_MeshData :: "'a asset_ptr \<Rightarrow> error + 'a MeshData" where
  "deref_MeshData data =
     (case data of NullPtr \<Rightarrow> Inl NullDeref | TexturePtr _ \<Rightarrow> Inl BadCast | MeshPtr m \<Rightarrow> Inr m)"

section \<open>Rendering functions\<close>

text \<open>\<^verbatim>\<open>_setTextureSampler\<close>: the texture name is read through the pointer without a test.\<close>

definition setTextureSampler_textureID ::
  "ovrAvatarAssetID \<Rightarrow> 'a gstate \<Rightarrow> error + GLuint \<times> 'a gstate" where
  "setTextureSampler_textureID assetID s =
     (if assetID \<noteq> 0 then
        (let (data, s') = assetMap_index assetID s
         in bind_err (deref_TextureData data) (\<lambda>textureData. Inr (textureID textureData, s')))
      else Inr (0, s))"

definition setTextureSampler ::
  "GLuint \<Rightarrow> int \<Rightarrow> string \<Rightarrow> ovrAvatarAssetID \<Rightarrow> 'a gstate \<Rightarrow> error + 'a gstate" where
  "setTextureSampler program textureUnit uniformName assetID s =
     bind_err (setTextureSampler_textureID assetID s) (\<lambda>(textureID, s').
       Inr (glcalls [ActiveTexture textureUnit, BindTexture textureID,
                     Uniform1i program uniformName textureUnit] s'))"

text \<open>\<^verbatim>\<open>_setTextureSamplers\<close>: here the pointer is tested before it is read.\<close>

definition setTextureSamplers_textureID ::
  "ovrAvatarAssetID \<Rightarrow> 'a gstate \<Rightarrow> error + GLuint \<times> 'a gstate" where
  "setTextureSamplers_textureID assetID s =
     (if assetID \<noteq> 0 then
        (let (data, s') = assetMap_index assetID s
         in if data \<noteq> NullPtr
            then bind_err (deref_TextureData data) (\<lambda>textureData. Inr (textureID textureData, s'))
            else Inr (0, s'))
      else Inr (0, s))"

function setTextureSamplers_loop ::
  "nat \<Rightarrow> int list \<Rightarrow> ovrAvatarAssetID list \<Rightarrow> nat \<Rightarrow> 'a gstate \<Rightarrow> error + 'a gstate" where
  "setTextureSamplers_loop count textureUnits assetIDs i s =
     (if i < count then
        (if length assetIDs \<le> i \<or> length textureUnits \<le> i then Inl OutOfBounds
         else case setTextureSamplers_textureID (assetIDs ! i) s of
                Inl e \<Rightarrow> Inl e
              | Inr r \<Rightarrow> setTextureSamplers_loop count textureUnits assetIDs (Suc i)
                          (glcalls [ActiveTexture (textureUnits ! i), BindTexture (fst r)] (snd r)))
      else Inr s)"
  by pat_completeness auto
termination
  by (relation "measure (\<lambda>(count, textureUnits, assetIDs, i, s). count - i)") auto

declare setTextureSamplers_loop.simps [simp del]

definition setTextureSamplers ::
  "GLuint \<Rightarrow> string \<Rightarrow> nat \<Rightarrow> int list \<Rightarrow> ovrAvatarAssetID list \<Rightarrow> 'a gstate \<Rightarrow> error + 'a gstate" where
  "setTextureSamplers program uniformName count textureUnits assetIDs s =
     bind_err (setTextureSamplers_loop count textureUnits assetIDs 0 s) (\<lambda>s'.
       Inr (glcalls [Uniform1iv program uniformName (take count textureUnits)] s'))"

text \<open>
  \<^verbatim>\<open>_setMeshState\<close>. \<open>data\<close> is the \<^verbatim>\<open>MeshData*\<close> of the caller and is read in the
  skinning loop only. \<open>inverseBindPose\<close> holds \<^verbatim>\<open>OVR_AVATAR_MAXIMUM_JOINT_COUNT\<close> matrices.
\<close>

function setMeshState_skin ::
  "'a::{plus,times} asset_ptr \<Rightarrow> nat \<Rightarrow> 'a mat4 list \<Rightarrow> nat \<Rightarrow> 'a fmat4 list \<Rightarrow> error + 'a fmat4 list" where
  "setMeshState_skin data count worldPoses i skinnedPoses =
     (if i < count then
        bind_err (deref_MeshData data) (\<lambda>mesh.
          if length (inverseBindPose mesh) \<le> i \<or> length worldPoses \<le> i \<or> length skinnedPoses \<le> i
          then Inl OutOfBounds
          else setMeshState_skin data count worldPoses (Suc i)
                 (skinnedPoses[i := fmat4_mul (worldPoses ! i) (inverseBindPose mesh ! i)]))
      else Inr skinnedPoses)"
  by pat_completeness auto
termination
  by (relation "measure (\<lambda>(data, count, worldPoses, i, skinnedPoses). count - i)") auto

declare setMeshState_skin.simps [simp del]

definition setMeshState ::
  "GLuint \<Rightarrow> 'a::{zero,one,plus,minus,times} ovrAvatarTransform \<Rightarrow> 'a asset_ptr
     \<Rightarrow> 'a ovrAvatarSkinnedMeshPose \<Rightarrow> 'a mat4 \<Rightarrow> 'a mat4 \<Rightarrow> 'a mat4 \<Rightarrow> 'a vec3
     \<Rightarrow> 'a gstate \<Rightarrow> error + 'a gstate" where
  "setMeshState program localTransform data skinnedPose world view proj viewPos s =
     (let local = glmFromOvrAvatarTransform localTransform;
          worldMat = mat4_mul world local;
          viewProjMat = mat4_mul proj view
      in bind_err (computeWorldPose skinnedPose (replicate (jointCount skinnedPose) (alloca_fill s)))
           (\<lambda>(worldPoses, _).
         bind_err (setMeshState_skin data (jointCount skinnedPose) worldPoses 0 (map Finite worldPoses))
           (\<lambda>skinnedPoses.
         Inr (glcalls [Uniform3fv program ''viewPos'' viewPos,
                       UniformMatrix4fv program ''world'' [Finite worldMat],
                       UniformMatrix4fv program ''viewProj'' [Finite viewProjMat],
                       UniformMatrix4fv program ''meshPose'' (take (jointCount skinnedPose) skinnedPoses)]
                s))))"

text \<open>
  Material descriptions. The enumerations of the SDK are kept as the integers that the
  program passes to \<^verbatim>\<open>glUniform1i\<close>; \<^verbatim>\<open>ovrAvatarVector4f\<close> is a \<open>vec4\<close>.
\<close>

record 'a ovrAvatarMaterialLayerState =
  blendMode :: int
  sampleMode :: int
  maskType :: int
  layerColor :: "'a vec4"
  sampleParameters :: "'a vec4"
  sampleTexture :: ovrAvatarAssetID
  sampleScaleOffset :: "'a vec4"
  maskParameters :: "'a vec4"
  maskAxis :: "'a vec4"

record 'a ovrAvatarMaterialState =
  baseColor :: "'a vec4"
  baseMaskType :: int
  baseMaskParameters :: "'a vec4"
  baseMaskAxis :: "'a vec4"
  alphaMaskTextureID :: ovrAvatarAssetID
  alphaMaskScaleOffset :: "'a vec4"
  normalMapTextureID :: ovrAvatarAssetID
  normalMapScaleOffset :: "'a vec4"
  parallaxMapTextureID :: ovrAvatarAssetID
  parallaxMapScaleOffset :: "'a vec4"
  roughnessMapTextureID :: ovrAvatarAssetID
  roughnessMapScaleOffset :: "'a vec4"
  layerCount :: nat
  layers :: "'a ovrAvatarMaterialLayerState list"

text \<open>
  Constants of the SDK header that the program uses by name and whose values are not in
  the repository.
\<close>

record ovr_constants =
  OVR_AVATAR_MAX_MATERIAL_LAYER_COUNT :: nat
  ovrAvatarVisibilityFlag_SelfOccluding :: "32 word"

text \<open>The local \<^verbatim>\<open>struct LayerUniforms\<close> of \<^verbatim>\<open>_setMaterialState\<close>: ten arrays of \<open>M\<close> slots.\<close>

record 'a LayerUniforms =
  layerSamplerModes :: "int list"
  layerBlendModes :: "int list"
  layerMaskTypes :: "int list"
  layerColors :: "'a vec4 list"
  layerSurfaces :: "int list"
  layerSurfaceIDs :: "ovrAvatarAssetID list"
  layerSurfaceScaleOffsets :: "'a vec4 list"
  layerSampleParameters :: "'a vec4 list"
  layerMaskParameters :: "'a vec4 list"
  layerMaskAxes :: "'a vec4 list"

text \<open>\<^verbatim>\<open>memset(&layerUniforms, 0, sizeof(layerUniforms))\<close>.\<close>

definition LayerUniforms_zero :: "nat \<Rightarrow> 'a::zero LayerUniforms" where
  "LayerUniforms_zero M =
     \<lparr>layerSamplerModes = replicate M 0, layerBlendModes = replicate M 0,
      layerMaskTypes = replicate M 0, layerColors = replicate M (Vec4 0 0 0 0),
      layerSurfaces = replicate M 0, layerSurfaceIDs = replicate M 0,
      layerSurfaceScaleOffsets = replicate M (Vec4 0 0 0 0),
      layerSampleParameters = replicate M (Vec4 0 0 0 0),
      layerMaskParameters = replicate M (Vec4 0 0 0 0),
      layerMaskAxes = replicate M (Vec4 0 0 0 0)\<rparr>"

text \<open>
  The loop over \<open>state->layers\<close>. It carries \<open>layerUniforms\<close> and \<open>textureSlot\<close>. A
  layer index at or beyond \<open>M\<close> would write behind an array of the struct.
\<close>

function setMaterialState_layers ::
  "nat \<Rightarrow> 'a ovrAvatarMaterialState \<Rightarrow> nat \<Rightarrow> 'a LayerUniforms \<times> int \<Rightarrow> error + 'a LayerUniforms \<times> int" where
  "setMaterialState_layers M state i (layerUniforms, textureSlot) =
     (if i < layerCount state then
        (if M \<le> i \<or> length (layers state) \<le> i then Inl OutOfBounds
         else
           let layerState = layers state ! i
           in setMaterialState_layers M state (Suc i)
                (layerUniforms
                   \<lparr>layerSamplerModes := (layerSamplerModes layerUniforms)[i := sampleMode layerState],
                    layerBlendModes := (layerBlendModes layerUniforms)[i := blendMode layerState],
                    layerMaskTypes := (layerMaskTypes layerUniforms)[i := maskType layerState],
                    layerColors := (layerColors layerUniforms)[i := layerColor layerState],
                    layerSurfaces := (layerSurfaces layerUniforms)[i := textureSlot],
                    layerSurfaceIDs := (layerSurfaceIDs layerUniforms)[i := sampleTexture layerState],
                    layerSurfaceScaleOffsets :=
                      (layerSurfaceScaleOffsets layerUniforms)[i := sampleScaleOffset layerState],
                    layerSampleParameters :=
                      (layerSampleParameters layerUniforms)[i := sampleParameters layerState],
                    layerMaskParameters := (layerMaskParameters layerUniforms)[i := maskParameters layerState],
                    layerMaskAxes := (layerMaskAxes layerUniforms)[i := maskAxis layerState]\<rparr>,
                 textureSlot + 1))
      else Inr (layerUniforms, textureSlot))"
  by pat_completeness auto
termination
  by (relation "measure (\<lambda>(M, state, i, _). layerCount state - i)") auto

declare setMaterialState_layers.simps [simp del]

definition bool_int :: "bool \<Rightarrow> int" where
  "bool_int b = (if b then 1 else 0)"

text \<open>
  \<^verbatim>\<open>_setMaterialState\<close>. \<open>projectorInv\<close> is a pointer that may be null. \<open>textureSlot\<close>
  starts at 1 and is incremented after each use.
\<close>

definition setMaterialState ::
  "ovr_constants \<Rightarrow> GLuint \<Rightarrow> 'a::zero ovrAvatarMaterialState \<Rightarrow> 'a fmat4 option
     \<Rightarrow> 'a gstate \<Rightarrow> error + 'a gstate" where
  "setMaterialState K program state projectorInv =
     (let M = OVR_AVATAR_MAX_MATERIAL_LAYER_COUNT K; textureSlot = 1 in
      seq_err
       [ok (\<lambda>s. glcalls
              [Uniform1i program ''useAlpha'' (bool_int (alphaMaskTextureID state \<noteq> 0)),
               Uniform1i program ''useNormalMap'' (bool_int (normalMapTextureID state \<noteq> 0)),
               Uniform1i program ''useRoughnessMap'' (bool_int (roughnessMapTextureID state \<noteq> 0)),
               Uniform1f program ''elapsedSeconds'' (elapsedSeconds s)] s),
        ok (glcalls
              (case projectorInv of
                 Some m \<Rightarrow> [Uniform1i program ''useProjector'' 1,
                              UniformMatrix4fv program ''projectorInv'' [m]]
               | None \<Rightarrow> [Uniform1i program ''useProjector'' 0])),
        ok (glcalls
              [Uniform4fv program ''baseColor'' [baseColor state],
               Uniform1i program ''baseMaskType'' (baseMaskType state),
               Uniform4fv program ''baseMaskParameters'' [baseMaskParameters state],
               Uniform4fv program ''baseMaskAxis'' [baseMaskAxis state]]),
        setTextureSampler program textureSlot ''alphaMask'' (alphaMaskTextureID state),
        ok (glcalls [Uniform4fv program ''alphaMaskScaleOffset'' [alphaMaskScaleOffset state]]),
        setTextureSampler program (textureSlot + 1) ''normalMap'' (normalMapTextureID state),
        ok (glcalls [Uniform4fv program ''normalMapScaleOffset'' [normalMapScaleOffset state]]),
        setTextureSampler program (textureSlot + 2) ''parallaxMap'' (parallaxMapTextureID state),
        ok (glcalls [Uniform4fv program ''parallaxMapScaleOffset'' [parallaxMapScaleOffset state]]),
        setTextureSampler program (textureSlot + 3) ''roughnessMap'' (roughnessMapTextureID state),
        ok (glcalls [Uniform4fv program ''roughnessMapScaleOffset'' [roughnessMapScaleOffset state]]),
        (\<lambda>s. bind_err (setMaterialState_layers M state 0 (LayerUniforms_zero M, textureSlot + 4))
           (\<lambda>(layerUniforms, _).
              seq_err
               [ok (glcalls
                      [Uniform1i program ''layerCount'' (int (layerCount state)),
                       Uniform1iv program ''layerSamplerModes'' (take M (layerSamplerModes layerUniforms)),
                       Uniform1iv program ''layerBlendModes'' (take M (layerBlendModes layerUniforms)),
                       Uniform1iv program ''layerMaskTypes'' (take M (layerMaskTypes layerUniforms)),
                       Uniform4fv program ''layerColors'' (take M (layerColors layerUniforms))]),
                setTextureSamplers program ''layerSurfaces'' M
                  (layerSurfaces layerUniforms) (layerSurfaceIDs layerUniforms),
                ok (glcalls
                      [Uniform4fv program ''layerSurfaceScaleOffsets''
                         (take M (layerSurfaceScaleOffsets layerUniforms)),
                       Uniform4fv program ''layerSampleParameters''
                         (take M (layerSampleParameters layerUniforms)),
                       Uniform4fv program ''layerMaskParameters''
                         (take M (layerMaskParameters layerUniforms)),
                       Uniform4fv program ''layerMaskAxes'' (take M (layerMaskAxes layerUniforms))])]
               s))])"

text \<open>\<^verbatim>\<open>_setPBSState\<close>.\<close>

definition setPBSState ::
  "GLuint \<Rightarrow> ovrAvatarAssetID \<Rightarrow> ovrAvatarAssetID \<Rightarrow> 'a gstate \<Rightarrow> error + 'a gstate" where
  "setPBSState program albedoTextureID surfaceTextureID =
     (let textureSlot = 0 in
      seq_err [setTextureSampler program textureSlot ''albedo'' albedoTextureID,
               setTextureSampler program (textureSlot + 1) ''surface'' surfaceTextureID])"

text \<open>\<^verbatim>\<open>_renderDebugLine\<close> and \<^verbatim>\<open>_renderPose\<close>, the joint visualisation.\<close>

definition renderDebugLine ::
  "'a mat4 \<Rightarrow> 'a vec3 \<Rightarrow> 'a vec3 \<Rightarrow> 'a vec4 \<Rightarrow> 'a vec4 \<Rightarrow> 'a gstate \<Rightarrow> 'a gstate" where
  "renderDebugLine worldViewProj a b aColor bColor s =
     glcalls [UseProgram (debugLineProgram s),
              UniformMatrix4fv (debugLineProgram s) ''worldViewProj'' [Finite worldViewProj],
              BindVertexArray (debugVertexArray s),
              BindBuffer (debugVertexArray s),
              BufferData [(a, aColor), (b, bColor)],
              VertexAttribPointer 0 3, EnableVertexAttribArray 0,
              VertexAttribPointer 1 4, EnableVertexAttribArray 1,
              DrawArrays 0 2] s"

definition vec3_of_vec4 :: "'a vec4 \<Rightarrow> 'a vec3" where
  "vec3_of_vec4 v = Vec3 (v4x v) (v4y v) (v4z v)"

function renderPose_loop ::
  "'a::{zero,one} mat4 \<Rightarrow> 'a ovrAvatarSkinnedMeshPose \<Rightarrow> 'a mat4 list \<Rightarrow> nat \<Rightarrow> 'a gstate
     \<Rightarrow> error + 'a gstate" where
  "renderPose_loop worldViewProj pose skinnedPoses i s =
     (if i < jointCount pose then
        (if length (jointParents pose) \<le> i then Inl OutOfBounds
         else
           let parent = jointParents pose ! i
           in if parent < 0 \<or> length skinnedPoses \<le> nat parent \<or> length skinnedPoses \<le> i
              then Inl OutOfBounds
              else renderPose_loop worldViewProj pose skinnedPoses (Suc i)
                     (renderDebugLine worldViewProj
                        (vec3_of_vec4 (col3 (skinnedPoses ! nat parent)))
                        (vec3_of_vec4 (col3 (skinnedPoses ! i)))
                        (Vec4 1 1 1 1) (Vec4 1 0 0 1) s))
      else Inr s)"
  by pat_completeness auto
termination
  by (relation "measure (\<lambda>(worldViewProj, pose, skinnedPoses, i, s). jointCount pose - i)") auto

declare renderPose_loop.simps [simp del]

definition renderPose ::
  "'a::{zero,one,plus,minus,times} mat4 \<Rightarrow> 'a ovrAvatarSkinnedMeshPose \<Rightarrow> 'a gstate \<Rightarrow> error + 'a gstate" where
  "renderPose worldViewProj pose s =
     bind_err (computeWorldPose pose (replicate (jointCount pose) (alloca_fill s)))
       (\<lambda>(skinnedPoses, _). renderPose_loop worldViewProj pose skinnedPoses 1 s)"

text \<open>
  Render parts. The three structures of the SDK have fields of the same names; the field
  names carry a prefix here. An avatar is read through \<^verbatim>\<open>ovrAvatarComponent_Count\<close> and
  \<^verbatim>\<open>ovrAvatarComponent_Get\<close> only and is the list of its components; \<open>renderPartCount\<close> is
  the length of \<open>renderParts\<close>.
\<close>

record 'a ovrAvatarRenderPart_SkinnedMeshRender =
  sm_localTransform :: "'a ovrAvatarTransform"
  sm_visibilityMask :: "32 word"
  sm_meshAssetID :: ovrAvatarAssetID
  sm_skinnedPose :: "'a ovrAvatarSkinnedMeshPose"
  sm_materialState :: "'a ovrAvatarMaterialState"

record 'a ovrAvatarRenderPart_SkinnedMeshRenderPBS =
  pbs_localTransform :: "'a ovrAvatarTransform"
  pbs_visibilityMask :: "32 word"
  pbs_meshAssetID :: ovrAvatarAssetID
  pbs_albedoTextureAssetID :: ovrAvatarAssetID
  pbs_surfaceTextureAssetID :: ovrAvatarAssetID
  pbs_skinnedPose :: "'a ovrAvatarSkinnedMeshPose"

record 'a ovrAvatarRenderPart_ProjectorRender =
  pr_localTransform :: "'a ovrAvatarTransform"
  pr_componentIndex :: nat
  pr_renderPartIndex :: nat
  pr_materialState :: "'a ovrAvatarMaterialState"

datatype 'a ovrAvatarRenderPart =
    SkinnedMeshRender "'a ovrAvatarRenderPart_SkinnedMeshRender"
  | SkinnedMeshRenderPBS "'a ovrAvatarRenderPart_SkinnedMeshRenderPBS"
  | ProjectorRender "'a ovrAvatarRenderPart_ProjectorRender"

record 'a ovrAvatarComponent =
  transform :: "'a ovrAvatarTransform"
  renderParts :: "'a ovrAvatarRenderPart list"

type_synonym 'a ovrAvatar = "'a ovrAvatarComponent list"

definition ovrAvatarComponent_Count :: "'a ovrAvatar \<Rightarrow> nat" where
  "ovrAvatarComponent_Count avatar = length avatar"

text \<open>
  What the SDK returns for an index that is not below the count is not visible in the
  repository; the model stops there.
\<close>

definition ovrAvatarComponent_Get :: "'a ovrAvatar \<Rightarrow> nat \<Rightarrow> error + 'a ovrAvatarComponent" where
  "ovrAvatarComponent_Get avatar i = (if i < length avatar then Inr (avatar ! i) else Inl OutOfBounds)"

definition ovrAvatarRenderPart_GetSkinnedMeshRender ::
  "'a ovrAvatarRenderPart \<Rightarrow> error + 'a ovrAvatarRenderPart_SkinnedMeshRender" where
  "ovrAvatarRenderPart_GetSkinnedMeshRender renderPart =
     (case renderPart of SkinnedMeshRender mesh \<Rightarrow> Inr mesh | _ \<Rightarrow> Inl BadCast)"

text \<open>\<^verbatim>\<open>_renderSkinnedMeshPart\<close>.\<close>

definition renderSkinnedMeshPart ::
  "ovr_constants \<Rightarrow> 'a::{zero,one,plus,minus,times} ovrAvatarRenderPart_SkinnedMeshRender \<Rightarrow> 32 word
     \<Rightarrow> 'a mat4 \<Rightarrow> 'a mat4 \<Rightarrow> 'a mat4 \<Rightarrow> 'a vec3 \<Rightarrow> bool \<Rightarrow> 'a gstate \<Rightarrow> error + 'a gstate" where
  "renderSkinnedMeshPart K mesh visibilityMask world view proj viewPos renderJoints s =
     (if sm_visibilityMask mesh AND visibilityMask = 0 then Inr s
      else
        let (data, s') = assetMap_index (sm_meshAssetID mesh) s
        in seq_err
            [ok (glcalls [UseProgram (skinnedMeshProgram s')]),
             setMeshState (skinnedMeshProgram s') (sm_localTransform mesh) data (sm_skinnedPose mesh)
               world view proj viewPos,
             setMaterialState K (skinnedMeshProgram s') (sm_materialState mesh) None,
             (\<lambda>s. bind_err (deref_MeshData data) (\<lambda>d.
                Inr (glcalls
                      ([BindVertexArray (vertexArray d), DepthFunc GL_LESS]
                       @ (if sm_visibilityMask mesh AND ovrAvatarVisibilityFlag_SelfOccluding K \<noteq> 0
                          then [DepthMask True, ColorMaski 0 False False False False,
                                DrawElements (elementCount d), DepthFunc GL_EQUAL]
                          else [])
                       @ [DepthMask False, ColorMaski 0 True True True True,
                          DrawElements (elementCount d), BindVertexArray 0]) s))),
             (\<lambda>s. if renderJoints
                   then renderPose
                          (mat4_mul (mat4_mul (mat4_mul proj view) world)
                             (glmFromOvrAvatarTransform (sm_localTransform mesh)))
                          (sm_skinnedPose mesh) (glcalls [DepthFunc GL_ALWAYS] s)
                   else Inr s)]
            s')"

text \<open>\<^verbatim>\<open>_renderSkinnedMeshPartPBS\<close>.\<close>

definition renderSkinnedMeshPartPBS ::
  "ovr_constants \<Rightarrow> 'a::{zero,one,plus,minus,times} ovrAvatarRenderPart_SkinnedMeshRenderPBS \<Rightarrow> 32 word
     \<Rightarrow> 'a mat4 \<Rightarrow> 'a mat4 \<Rightarrow> 'a mat4 \<Rightarrow> 'a vec3 \<Rightarrow> bool \<Rightarrow> 'a gstate \<Rightarrow> error + 'a gstate" where
  "renderSkinnedMeshPartPBS K mesh visibilityMask world view proj viewPos renderJoints s =
     (if pbs_visibilityMask mesh AND visibilityMask = 0 then Inr s
      else
        let (data, s') = assetMap_index (pbs_meshAssetID mesh) s
        in seq_err
            [ok (glcalls [UseProgram (skinnedMeshPBSProgram s')]),
             setMeshState (skinnedMeshPBSProgram s') (pbs_localTransform mesh) data (pbs_skinnedPose mesh)
               world view proj viewPos,
             setPBSState (skinnedMeshPBSProgram s') (pbs_albedoTextureAssetID mesh)
               (pbs_surfaceTextureAssetID mesh),
             (\<lambda>s. bind_err (deref_MeshData data) (\<lambda>d.
                Inr (glcalls
                      ([BindVertexArray (vertexArray d), DepthFunc GL_LESS]
                       @ (if pbs_visibilityMask mesh AND ovrAvatarVisibilityFlag_SelfOccluding K \<noteq> 0
                          then [DepthMask True, ColorMaski 0 False False False False,
                                DrawElements (elementCount d), DepthFunc GL_EQUAL]
                          else [])
                       @ [DepthMask False, ColorMaski 0 True True True True,
                          DrawElements (elementCount d), BindVertexArray 0]) s))),
             (\<lambda>s. if renderJoints
                   then renderPose
                          (mat4_mul (mat4_mul (mat4_mul proj view) world)
                             (glmFromOvrAvatarTransform (pbs_localTransform mesh)))
                          (pbs_skinnedPose mesh) (glcalls [DepthFunc GL_ALWAYS] s)
                   else Inr s)]
            s')"

text \<open>\<^verbatim>\<open>_renderProjector\<close>: the mesh is the render part that the projector names by index.\<close>

definition renderProjector ::
  "ovr_constants \<Rightarrow> 'a::{zero,one,plus,minus,uminus,times,inverse} ovrAvatarRenderPart_ProjectorRender
     \<Rightarrow> 'a ovrAvatar \<Rightarrow> 32 word \<Rightarrow> 'a mat4 \<Rightarrow> 'a mat4 \<Rightarrow> 'a mat4 \<Rightarrow> 'a vec3
     \<Rightarrow> 'a gstate \<Rightarrow> error + 'a gstate" where
  "renderProjector K projector avatar visibilityMask world view proj viewPos s =
     bind_err (ovrAvatarComponent_Get avatar (pr_componentIndex projector)) (\<lambda>component.
       if length (renderParts component) \<le> pr_renderPartIndex projector then Inl OutOfBounds
       else
         bind_err (ovrAvatarRenderPart_GetSkinnedMeshRender
                     (renderParts component ! pr_renderPartIndex projector)) (\<lambda>mesh.
           if sm_visibilityMask mesh AND visibilityMask = 0 then Inr s
           else
             let projection = glmFromOvrAvatarTransform (pr_localTransform projector);
                 worldProjection = mat4_mul world projection;
                 projectionInv = glm_inverse worldProjection;
                 meshWorld = glmFromOvrAvatarTransform (transform component);
                 (data, s') = assetMap_index (sm_meshAssetID mesh) s
             in seq_err
                 [ok (glcalls [UseProgram (skinnedMeshProgram s')]),
                  setMeshState (skinnedMeshProgram s') (sm_localTransform mesh) data (sm_skinnedPose mesh)
                    meshWorld view proj viewPos,
                  setMaterialState K (skinnedMeshProgram s') (pr_materialState projector)
                    (Some projectionInv),
                  (\<lambda>s. bind_err (deref_MeshData data) (\<lambda>d.
                     Inr (glcalls [BindVertexArray (vertexArray d), DepthMask False, DepthFunc GL_EQUAL,
                                   DrawElements (elementCount d), BindVertexArray 0] s)))]
                 s'))"

text \<open>
  \<^verbatim>\<open>_renderAvatar\<close> of \<^verbatim>\<open>Avatar.cpp\<close>. \<open>renderAvatar_renderPart\<close> is the \<^verbatim>\<open>switch\<close> on the
  type of the render part, \<open>renderAvatar_renderParts\<close> the loop over \<open>j\<close> and
  \<open>renderAvatar_components\<close> the loop over \<open>i\<close>.
\<close>

definition renderAvatar_renderPart ::
  "ovr_constants \<Rightarrow> 'a::{zero,one,plus,minus,uminus,times,inverse} ovrAvatar \<Rightarrow> 32 word
     \<Rightarrow> 'a mat4 \<Rightarrow> 'a mat4 \<Rightarrow> 'a mat4 \<Rightarrow> 'a vec3 \<Rightarrow> bool \<Rightarrow> 'a ovrAvatarRenderPart
     \<Rightarrow> 'a gstate \<Rightarrow> error + 'a gstate" where
  "renderAvatar_renderPart K avatar visibilityMask world view proj viewPos renderJoints renderPart =
     (case renderPart of
        SkinnedMeshRender mesh \<Rightarrow>
          renderSkinnedMeshPart K mesh visibilityMask world view proj viewPos renderJoints
      | SkinnedMeshRenderPBS mesh \<Rightarrow>
          renderSkinnedMeshPartPBS K mesh visibilityMask world view proj viewPos renderJoints
      | ProjectorRender projector \<Rightarrow>
          renderProjector K projector avatar visibilityMask world view proj viewPos)"

function renderAvatar_renderParts ::
  "ovr_constants \<Rightarrow> 'a::{zero,one,plus,minus,uminus,times,inverse} ovrAvatar \<Rightarrow> 32 word
     \<Rightarrow> 'a mat4 \<Rightarrow> 'a mat4 \<Rightarrow> 'a vec3 \<Rightarrow> bool \<Rightarrow> 'a ovrAvatarComponent \<Rightarrow> 'a mat4 \<Rightarrow> nat
     \<Rightarrow> 'a gstate \<Rightarrow> error + 'a gstate" where
  "renderAvatar_renderParts K avatar visibilityMask view proj viewPos renderJoints component world j s =
     (if j < length (renderParts component) then
        (case renderAvatar_renderPart K avatar visibilityMask world view proj viewPos renderJoints
                (renderParts component ! j) s of
           Inl e \<Rightarrow> Inl e
         | Inr s' \<Rightarrow> renderAvatar_renderParts K avatar visibilityMask view proj viewPos renderJoints
                       component world (Suc j) s')
      else Inr s)"
  by pat_completeness auto
termination
  by (relation "measure (\<lambda>(K, avatar, visibilityMask, view, proj, viewPos, renderJoints, component,
                            world, j, s). length (renderParts component) - j)") auto

declare renderAvatar_renderParts.simps [simp del]

function renderAvatar_components ::
  "ovr_constants \<Rightarrow> 'a::{zero,one,plus,minus,uminus,times,inverse} ovrAvatar \<Rightarrow> 32 word
     \<Rightarrow> 'a mat4 \<Rightarrow> 'a mat4 \<Rightarrow> 'a vec3 \<Rightarrow> bool \<Rightarrow> nat \<Rightarrow> nat \<Rightarrow> 'a gstate \<Rightarrow> error + 'a gstate" where
  "renderAvatar_components K avatar visibilityMask view proj viewPos renderJoints componentCount i s =
     (if i < componentCount then
        (case ovrAvatarComponent_Get avatar i of
           Inl e \<Rightarrow> Inl e
         | Inr component \<Rightarrow>
             let world = glmFromOvrAvatarTransform (transform component)
             in (case renderAvatar_renderParts K avatar visibilityMask view proj viewPos renderJoints
                        component world 0 s of
                   Inl e \<Rightarrow> Inl e
                 | Inr s' \<Rightarrow> renderAvatar_components K avatar visibilityMask view proj viewPos
                               renderJoints componentCount (Suc i) s'))
      else Inr s)"
  by pat_completeness auto
termination
  by (relation "measure (\<lambda>(K, avatar, visibilityMask, view, proj, viewPos, renderJoints,
                            componentCount, i, s). componentCount - i)") auto

declare renderAvatar_components.simps [simp del]

definition renderAvatar ::
  "ovr_constants \<Rightarrow> 'a::{zero,one,plus,minus,uminus,times,inverse} ovrAvatar \<Rightarrow> 32 word
     \<Rightarrow> 'a mat4 \<Rightarrow> 'a mat4 \<Rightarrow> 'a vec3 \<Rightarrow> bool \<Rightarrow> 'a gstate \<Rightarrow> error + 'a gstate" where
  "renderAvatar K avatar visibilityMask view proj viewPos renderJoints s =
     (let componentCount = ovrAvatarComponent_Count avatar
      in renderAvatar_components K avatar visibilityMask view proj viewPos renderJoints
           componentCount 0 s)"

text \<open>
  \<^verbatim>\<open>_renderAvatar\<close> of the second program (\<^verbatim>\<open>src/unnamed/part_000\<close>). Its outer loop is
  \<^verbatim>\<open>for (uint32_t i = 4; i < 6; ++i)\<close>, it ignores its parameter \<open>renderJoints\<close> and
  passes \<open>isRight\<close>, true for component 5, to the mesh renderers. The three part
  renderers of that file differ from the ones above in GL details and draw a pointer line;
  the traversal takes them as the parameter \<open>R\<close>, over any state \<open>'s\<close>.
\<close>

record ('a, 's) part_renderers =
  r_SkinnedMeshPart ::
    "'a ovrAvatarRenderPart_SkinnedMeshRender \<Rightarrow> 32 word \<Rightarrow> 'a mat4 \<Rightarrow> 'a mat4 \<Rightarrow> 'a mat4
       \<Rightarrow> 'a vec3 \<Rightarrow> bool \<Rightarrow> 's \<Rightarrow> error + 's"
  r_SkinnedMeshPartPBS ::
    "'a ovrAvatarRenderPart_SkinnedMeshRenderPBS \<Rightarrow> 32 word \<Rightarrow> 'a mat4 \<Rightarrow> 'a mat4 \<Rightarrow> 'a mat4
       \<Rightarrow> 'a vec3 \<Rightarrow> bool \<Rightarrow> 's \<Rightarrow> error + 's"
  r_Projector ::
    "'a ovrAvatarRenderPart_ProjectorRender \<Rightarrow> 'a ovrAvatar \<Rightarrow> 32 word \<Rightarrow> 'a mat4 \<Rightarrow> 'a mat4
       \<Rightarrow> 'a mat4 \<Rightarrow> 'a vec3 \<Rightarrow> 's \<Rightarrow> error + 's"

definition renderAvatar_hands_renderPart ::
  "('a, 's) part_renderers \<Rightarrow> 'a ovrAvatar \<Rightarrow> 32 word \<Rightarrow> 'a mat4 \<Rightarrow> 'a mat4 \<Rightarrow> 'a mat4 \<Rightarrow> 'a vec3
     \<Rightarrow> bool \<Rightarrow> 'a ovrAvatarRenderPart \<Rightarrow> 's \<Rightarrow> error + 's" where
  "renderAvatar_hands_renderPart R avatar visibilityMask world view proj viewPos isRight renderPart =
     (case renderPart of
        SkinnedMeshRender mesh \<Rightarrow>
          r_SkinnedMeshPart R mesh visibilityMask world view proj viewPos isRight
      | SkinnedMeshRenderPBS mesh \<Rightarrow>
          r_SkinnedMeshPartPBS R mesh visibilityMask world view proj viewPos isRight
      | ProjectorRender projector \<Rightarrow>
          r_Projector R projector avatar visibilityMask world view proj viewPos)"

function renderAvatar_hands_renderParts ::
  "('a, 's) part_renderers \<Rightarrow> 'a ovrAvatar \<Rightarrow> 32 word \<Rightarrow> 'a mat4 \<Rightarrow> 'a mat4 \<Rightarrow> 'a vec3 \<Rightarrow> bool
     \<Rightarrow> 'a ovrAvatarComponent \<Rightarrow> 'a mat4 \<Rightarrow> nat \<Rightarrow> 's \<Rightarrow> error + 's" where
  "renderAvatar_hands_renderParts R avatar visibilityMask view proj viewPos isRight component world j s =
     (if j < length (renderParts component) then
        (case renderAvatar_hands_renderPart R avatar visibilityMask world view proj viewPos isRight
                (renderParts component ! j) s of
           Inl e \<Rightarrow> Inl e
         | Inr s' \<Rightarrow> renderAvatar_hands_renderParts R avatar visibilityMask view proj viewPos isRight
                       component world (Suc j) s')
      else Inr s)"
  by pat_completeness auto
termination
  by (relation "measure (\<lambda>(R, avatar, visibilityMask, view, proj, viewPos, isRight, component,
                            world, j, s). length (renderParts component) - j)") auto

declare renderAvatar_hands_renderParts.simps [simp del]

function renderAvatar_hands_components ::
  "('a::{zero,one,plus,minus,times}, 's) part_renderers \<Rightarrow> 'a ovrAvatar \<Rightarrow> 32 word
     \<Rightarrow> 'a mat4 \<Rightarrow> 'a mat4 \<Rightarrow> 'a vec3 \<Rightarrow> nat \<Rightarrow> 's \<Rightarrow> error + 's" where
  "renderAvatar_hands_components R avatar visibilityMask view proj viewPos i s =
     (if i < 6 then
        (case ovrAvatarComponent_Get avatar i of
           Inl e \<Rightarrow> Inl e
         | Inr component \<Rightarrow>
             let isRight = (i = 5);
                 world = glmFromOvrAvatarTransform (transform component)
             in (case renderAvatar_hands_renderParts R avatar visibilityMask view proj viewPos isRight
                        component world 0 s of
                   Inl e \<Rightarrow> Inl e
                 | Inr s' \<Rightarrow> renderAvatar_hands_components R avatar visibilityMask view proj viewPos
                               (Suc i) s'))
      else Inr s)"
  by pat_completeness auto
termination
  by (relation "measure (\<lambda>(R, avatar, visibilityMask, view, proj, viewPos, i, s). 6 - i)") auto

declare renderAvatar_hands_components.simps [simp del]

definition renderAvatar_hands ::
  "('a::{zero,one,plus,minus,times}, 's) part_renderers \<Rightarrow> 'a ovrAvatar \<Rightarrow> 32 word
     \<Rightarrow> 'a mat4 \<Rightarrow> 'a mat4 \<Rightarrow> 'a vec3 \<Rightarrow> bool \<Rightarrow> 's \<Rightarrow> error + 's" where
  "renderAvatar_hands R avatar visibilityMask view proj viewPos renderJoints s =
     renderAvatar_hands_components R avatar visibilityMask view proj viewPos 4 s"

section \<open>Asset loaders\<close>





text \<open>
  \<^verbatim>\<open>_loadTexture\<close>. \<open>level\<close>, \<open>offset\<close>, \<open>width\<close> and \<open>height\<close> are \<^verbatim>\<open>uint32_t\<close>.
  \<open>blockSize\<close> is an \<^verbatim>\<open>int\<close> that C converts to \<^verbatim>\<open>unsigned\<close> in the product with
  \<open>width / 4\<close>, so that \<open>levelSize\<close> is computed modulo \<open>2 ^ 32\<close>; it is then passed as a
  \<^verbatim>\<open>GLsizei\<close> (the same 32 bits, read as signed) and added to \<open>offset\<close>. A format that is
  not one of the three of the \<^verbatim>\<open>switch\<close> uploads nothing.
\<close>

datatype ovrAvatarTextureFormat =
    ovrAvatarTextureFormat_RGB24
  | ovrAvatarTextureFormat_DXT1
  | ovrAvatarTextureFormat_DXT5
  | ovrAvatarTextureFormat_Other

record ovrAvatarTextureAssetData =
  format :: ovrAvatarTextureFormat
  sizeX :: "32 word"
  sizeY :: "32 word"
  mipCount :: "32 word"

function loadTexture_RGB24 ::
  "ovrAvatarTextureAssetData \<Rightarrow> 32 word \<times> 32 word \<times> 32 word \<times> 32 word \<Rightarrow> 'a gstate \<Rightarrow> 'a gstate" where
  "loadTexture_RGB24 data (level, offset, width, height) s =
     (if level < mipCount data then
        loadTexture_RGB24 data (level + 1, offset + width * height * 3, width div 2, height div 2)
          (glcalls [TexImage2D level width height offset] s)
      else s)"
  by pat_completeness auto
termination
proof (relation "measure (\<lambda>(data, (level, _), _). unat (mipCount data) - unat level)", goal_cases)
  case 1
  show ?case by simp
next
  case (2 data level offset width height s)
  then have "unat level < unat (mipCount data)" by (simp add: word_less_nat_alt)
  moreover have "unat (mipCount data) < 2 ^ 32" using unsigned_less [of "mipCount data"] by simp
  ultimately have "unat (level + 1) = Suc (unat level)" by (simp add: unat_word_ariths)
  with \<open>unat level < unat (mipCount data)\<close> show ?case by simp
qed

declare loadTexture_RGB24.simps [simp del]

definition levelSize_DXT :: "32 word \<Rightarrow> 32 word \<Rightarrow> 32 word \<Rightarrow> 32 word" where
  "levelSize_DXT blockSize width height =
     (if width < 4 \<or> height < 4 then blockSize else blockSize * (width div 4) * (height div 4))"

function loadTexture_DXT ::
  "ovrAvatarTextureAssetData \<Rightarrow> 32 word \<Rightarrow> compressed_format
     \<Rightarrow> 32 word \<times> 32 word \<times> 32 word \<times> 32 word \<Rightarrow> 'a gstate \<Rightarrow> 'a gstate" where
  "loadTexture_DXT data blockSize glFormat (level, offset, width, height) s =
     (if level < mipCount data then
        (let levelSize = levelSize_DXT blockSize width height
         in loadTexture_DXT data blockSize glFormat
              (level + 1, offset + levelSize, width div 2, height div 2)
              (glcalls [CompressedTexImage2D level glFormat width height levelSize offset] s))
      else s)"
  by pat_completeness auto
termination
proof (relation "measure (\<lambda>(data, blockSize, glFormat, (level, _), _). unat (mipCount data) - unat level)",
    goal_cases)
  case 1
  show ?case by simp
next
  case (2 data blockSize glFormat level offset width height s levelSize)
  then have "unat level < unat (mipCount data)" by (simp add: word_less_nat_alt)
  moreover have "unat (mipCount data) < 2 ^ 32" using unsigned_less [of "mipCount data"] by simp
  ultimately have "unat (level + 1) = Suc (unat level)" by (simp add: unat_word_ariths)
  with \<open>unat level < unat (mipCount data)\<close> show ?case by simp
qed

declare loadTexture_DXT.simps [simp del]

definition loadTexture :: "ovrAvatarTextureAssetData \<Rightarrow> GLuint \<Rightarrow> 'a gstate \<Rightarrow> TextureData \<times> 'a gstate" where
  "loadTexture data name s =
     (let texture = \<lparr>textureID = name\<rparr>;
          s1 = glcalls [BindTexture (textureID texture)] s;
          s2 = (case format data of
                  ovrAvatarTextureFormat_RGB24 \<Rightarrow> loadTexture_RGB24 data (0, 0, sizeX data, sizeY data) s1
                | ovrAvatarTextureFormat_DXT1 \<Rightarrow>
                    loadTexture_DXT data 8 GL_COMPRESSED_RGBA_S3TC_DXT1_EXT (0, 0, sizeX data, sizeY data) s1
                | ovrAvatarTextureFormat_DXT5 \<Rightarrow>
                    loadTexture_DXT data 16 GL_COMPRESSED_RGBA_S3TC_DXT5_EXT (0, 0, sizeX data, sizeY data) s1
                | ovrAvatarTextureFormat_Other \<Rightarrow> s1)
      in (texture, glcalls [TexParameteri MIN_FILTER_LINEAR, TexParameteri MAG_FILTER_LINEAR,
                            TexParameteri WRAP_S_REPEAT, TexParameteri WRAP_T_REPEAT] s2))"

section \<open>Frame update\<close>

text \<open>
  \<^verbatim>\<open>_updateAvatar\<close>. The avatar is an opaque object of the SDK: what the function does to
  it is the sequence of SDK calls, each with the handle of the avatar it is applied to.
  \<open>global_avatar\<close> is the static \<^verbatim>\<open>_avatar\<close>, which the microphone branch uses. \<open>mic\<close>,
  \<open>packet\<close> and \<open>packetPlaybackTime\<close> are pointers that may be null; the microphone is the
  list of samples it has ready, of which \<^verbatim>\<open>ovr_Microphone_ReadData\<close> copies at most 48000.
  The packet is read through \<^verbatim>\<open>ovrAvatarPacket_GetDurationSeconds\<close> only. The hand states
  are passed on unread and have the type \<open>'h\<close>. The function returns the calls and the value
  that \<open>packetPlaybackTime\<close> points to afterwards. The copy of the function in the second
  program has the microphone branch commented out and is the same text otherwise, so the
  two agree whenever a packet is given.
\<close>

type_synonym avatar_handle = nat

record 'a ovrAvatarPacket =
  durationSeconds :: 'a

datatype ('a, 'h) sdk_call =
    ovrAvatarPose_Finalize avatar_handle 'a
  | ovrAvatar_UpdatePoseFromPacket avatar_handle "'a ovrAvatarPacket" 'a
  | ovrAvatarPose_UpdateVoiceVisualization avatar_handle nat "'a list"
  | ovrAvatarPose_UpdateBody avatar_handle "'a ovrAvatarTransform"
  | ovrAvatarPose_UpdateHands avatar_handle 'h 'h

definition updateAvatar ::
  "avatar_handle \<Rightarrow> avatar_handle \<Rightarrow> 'a::{zero,plus,ord} \<Rightarrow> 'a ovrAvatarTransform \<Rightarrow> 'h \<Rightarrow> 'h
     \<Rightarrow> 'a list option \<Rightarrow> 'a ovrAvatarPacket option \<Rightarrow> 'a option \<Rightarrow> ('a, 'h) sdk_call list
     \<Rightarrow> error + ('a, 'h) sdk_call list \<times> 'a option" where
  "updateAvatar global_avatar avatar deltaSeconds hmd left right mic packet packetPlaybackTime calls =
     (case packet of
        Some pkt \<Rightarrow>
          (case packetPlaybackTime of
             None \<Rightarrow> Inl NullDeref
           | Some t \<Rightarrow>
               let packetDuration = durationSeconds pkt;
                   t1 = t + deltaSeconds;
                   (calls1, t2) = (if t1 > packetDuration
                                   then (calls @ [ovrAvatarPose_Finalize avatar 0], 0)
                                   else (calls, t1))
               in Inr (calls1 @ [ovrAvatar_UpdatePoseFromPacket avatar pkt t2,
                                 ovrAvatarPose_Finalize avatar deltaSeconds],
                       Some t2))
      | None \<Rightarrow>
          let calls1 = (case mic of
                          Some ready \<Rightarrow>
                            let micSamples = take 48000 ready; sampleCount = length micSamples
                            in if sampleCount > 0
                               then calls @ [ovrAvatarPose_UpdateVoiceVisualization global_avatar
                                               sampleCount micSamples]
                               else calls
                        | None \<Rightarrow> calls)
          in Inr (calls1 @ [ovrAvatarPose_UpdateBody avatar hmd,
                            ovrAvatarPose_UpdateHands avatar left right,
                            ovrAvatarPose_Finalize avatar deltaSeconds],
                  packetPlaybackTime))"

section \<open>Notions used in the statements\<close>

text \<open>
  The definitions of this section are not part of the program. They name what the
  theorems say about it.
\<close>

text \<open>
  A pose is well-formed when its arrays hold \<open>jointCount\<close> entries and every parent index
  is below the index of its joint; a negative parent index marks a root.
\<close>

definition pose_wellformed :: "'a ovrAvatarSkinnedMeshPose \<Rightarrow> bool" where
  "pose_wellformed pose \<longleftrightarrow>
     jointCount pose \<le> length (jointTransform pose) \<and> jointCount pose \<le> length (jointParents pose)
     \<and> (\<forall>i < jointCount pose. jointParents pose ! i < int i)"

text \<open>
  The texture name that the binders bind for an asset id under a cache \<open>m\<close>: 0 for the id 0
  and for an id without a loaded texture. \<open>null_inserted m A\<close> is the cache after the keys
  of \<open>A\<close> (0 apart) that were absent have been entered with a null pointer.
  \<open>texture_ready\<close> holds for the id 0 and for the id of a loaded texture.
\<close>

definition bound_texture :: "(ovrAvatarAssetID \<rightharpoonup> 'a asset_ptr) \<Rightarrow> ovrAvatarAssetID \<Rightarrow> GLuint" where
  "bound_texture m assetID =
     (if assetID = 0 then 0
      else case m assetID of Some (TexturePtr t) \<Rightarrow> textureID t | _ \<Rightarrow> 0)"

definition null_inserted ::
  "(ovrAvatarAssetID \<rightharpoonup> 'a asset_ptr) \<Rightarrow> ovrAvatarAssetID set \<Rightarrow> (ovrAvatarAssetID \<rightharpoonup> 'a asset_ptr)" where
  "null_inserted m A = (\<lambda>k. if k \<in> A \<and> k \<noteq> 0 \<and> m k = None then Some NullPtr else m k)"

definition texture_ready :: "(ovrAvatarAssetID \<rightharpoonup> 'a asset_ptr) \<Rightarrow> ovrAvatarAssetID \<Rightarrow> bool" where
  "texture_ready m assetID \<longleftrightarrow> assetID = 0 \<or> (\<exists>t. m assetID = Some (TexturePtr t))"

text \<open>
  The layer table as the specification describes it: the first \<open>k\<close> slots carry the values
  of the first \<open>k\<close> layers of the material and the texture units \<open>firstSlot + i\<close>, the other
  \<open>M - k\<close> slots are zero. \<open>expected_LayerUniforms\<close> is the table for all layers of the
  material, with the units from 5 on.
\<close>

definition LayerUniforms_prefix :: "nat \<Rightarrow> 'a::zero ovrAvatarMaterialState \<Rightarrow> int \<Rightarrow> nat \<Rightarrow> 'a LayerUniforms" where
  "LayerUniforms_prefix M state firstSlot k =
     \<lparr>layerSamplerModes = map sampleMode (take k (layers state)) @ replicate (M - k) 0,
      layerBlendModes = map blendMode (take k (layers state)) @ replicate (M - k) 0,
      layerMaskTypes = map maskType (take k (layers state)) @ replicate (M - k) 0,
      layerColors = map layerColor (take k (layers state)) @ replicate (M - k) (Vec4 0 0 0 0),
      layerSurfaces = map (\<lambda>i. firstSlot + int i) [0..<k] @ replicate (M - k) 0,
      layerSurfaceIDs = map sampleTexture (take k (layers state)) @ replicate (M - k) 0,
      layerSurfaceScaleOffsets = map sampleScaleOffset (take k (layers state)) @ replicate (M - k) (Vec4 0 0 0 0),
      layerSampleParameters = map sampleParameters (take k (layers state)) @ replicate (M - k) (Vec4 0 0 0 0),
      layerMaskParameters = map maskParameters (take k (layers state)) @ replicate (M - k) (Vec4 0 0 0 0),
      layerMaskAxes = map maskAxis (take k (layers state)) @ replicate (M - k) (Vec4 0 0 0 0)\<rparr>"

definition expected_LayerUniforms :: "nat \<Rightarrow> 'a::zero ovrAvatarMaterialState \<Rightarrow> 'a LayerUniforms" where
  "expected_LayerUniforms M state = LayerUniforms_prefix M state 5 (layerCount state)"

text \<open>
  The GL calls of \<open>setMaterialState\<close>: \<open>fixed_uploads\<close> up to the four single maps at the
  units 1 to 4, \<open>layer_uploads\<close> for a layer table \<open>T\<close> of \<open>M\<close> slots.
\<close>

definition fixed_uploads ::
  "GLuint \<Rightarrow> 'a ovrAvatarMaterialState \<Rightarrow> 'a fmat4 option \<Rightarrow> 'a
     \<Rightarrow> (ovrAvatarAssetID \<rightharpoonup> 'a asset_ptr) \<Rightarrow> 'a gl_call list" where
  "fixed_uploads program state projectorInv elapsed m =
     [Uniform1i program ''useAlpha'' (bool_int (alphaMaskTextureID state \<noteq> 0)),
      Uniform1i program ''useNormalMap'' (bool_int (normalMapTextureID state \<noteq> 0)),
      Uniform1i program ''useRoughnessMap'' (bool_int (roughnessMapTextureID state \<noteq> 0)),
      Uniform1f program ''elapsedSeconds'' elapsed]
     @ (case projectorInv of
          Some p \<Rightarrow> [Uniform1i program ''useProjector'' 1, UniformMatrix4fv program ''projectorInv'' [p]]
        | None \<Rightarrow> [Uniform1i program ''useProjector'' 0])
     @ [Uniform4fv program ''baseColor'' [baseColor state],
        Uniform1i program ''baseMaskType'' (baseMaskType state),
        Uniform4fv program ''baseMaskParameters'' [baseMaskParameters state],
        Uniform4fv program ''baseMaskAxis'' [baseMaskAxis state],
        ActiveTexture 1, BindTexture (bound_texture m (alphaMaskTextureID state)),
        Uniform1i program ''alphaMask'' 1,
        Uniform4fv program ''alphaMaskScaleOffset'' [alphaMaskScaleOffset state],
        ActiveTexture 2, BindTexture (bound_texture m (normalMapTextureID state)),
        Uniform1i program ''normalMap'' 2,
        Uniform4fv program ''normalMapScaleOffset'' [normalMapScaleOffset state],
        ActiveTexture 3, BindTexture (bound_texture m (parallaxMapTextureID state)),
        Uniform1i program ''parallaxMap'' 3,
        Uniform4fv program ''parallaxMapScaleOffset'' [parallaxMapScaleOffset state],
        ActiveTexture 4, BindTexture (bound_texture m (roughnessMapTextureID state)),
        Uniform1i program ''roughnessMap'' 4,
        Uniform4fv program ''roughnessMapScaleOffset'' [roughnessMapScaleOffset state]]"

definition layer_uploads ::
  "GLuint \<Rightarrow> nat \<Rightarrow> nat \<Rightarrow> 'a LayerUniforms \<Rightarrow> (ovrAvatarAssetID \<rightharpoonup> 'a asset_ptr) \<Rightarrow> 'a gl_call list" where
  "layer_uploads program M k T m =
     [Uniform1i program ''layerCount'' (int k),
      Uniform1iv program ''layerSamplerModes'' (layerSamplerModes T),
      Uniform1iv program ''layerBlendModes'' (layerBlendModes T),
      Uniform1iv program ''layerMaskTypes'' (layerMaskTypes T),
      Uniform4fv program ''layerColors'' (layerColors T)]
     @ concat (map (\<lambda>j. [ActiveTexture (layerSurfaces T ! j),
                          BindTexture (bound_texture m (layerSurfaceIDs T ! j))]) [0..<M])
     @ [Uniform1iv program ''layerSurfaces'' (layerSurfaces T),
        Uniform4fv program ''layerSurfaceScaleOffsets'' (layerSurfaceScaleOffsets T),
        Uniform4fv program ''layerSampleParameters'' (layerSampleParameters T),
        Uniform4fv program ''layerMaskParameters'' (layerMaskParameters T),
        Uniform4fv program ''layerMaskAxes'' (layerMaskAxes T)]"

text \<open>
  The upload of mip level \<open>l\<close> of a block-compressed texture, counted from the loop state
  \<open>(level, offset, width, height)\<close>: the dimensions are halved \<open>l\<close> times, the offset is
  advanced by the sizes of the levels before. All values are 32-bit words.
\<close>

definition dxt_levelSize :: "32 word \<Rightarrow> 32 word \<Rightarrow> 32 word \<Rightarrow> nat \<Rightarrow> 32 word" where
  "dxt_levelSize blockSize width height l = levelSize_DXT blockSize (drop_bit l width) (drop_bit l height)"

definition dxt_upload :: "32 word \<Rightarrow> compressed_format \<Rightarrow> 32 word \<Rightarrow> 32 word \<Rightarrow> 32 word \<Rightarrow> 32 word \<Rightarrow> nat \<Rightarrow> 'a gl_call" where
  "dxt_upload blockSize glFormat level offset width height l =
     CompressedTexImage2D (level + of_nat l) glFormat (drop_bit l width) (drop_bit l height)
       (dxt_levelSize blockSize width height l)
       (offset + (\<Sum>i<l. dxt_levelSize blockSize width height i))"

definition blockSize_of :: "ovrAvatarTextureFormat \<Rightarrow> 32 word" where
  "blockSize_of f = (if f = ovrAvatarTextureFormat_DXT1 then 8 else 16)"

definition glFormat_of :: "ovrAvatarTextureFormat \<Rightarrow> compressed_format" where
  "glFormat_of f = (if f = ovrAvatarTextureFormat_DXT1 then GL_COMPRESSED_RGBA_S3TC_DXT1_EXT
                    else GL_COMPRESSED_RGBA_S3TC_DXT5_EXT)"

text \<open>
  The pairs \<open>(i, j)\<close> of a component index from the list \<open>is\<close> and a render part index of
  that component, in the order of the two nested loops.
\<close>

definition component_parts :: "'a ovrAvatar \<Rightarrow> nat list \<Rightarrow> (nat \<times> nat) list" where
  "component_parts avatar is = concat (map (\<lambda>i. map (Pair i) [0..<length (renderParts (avatar ! i))]) is)"

text \<open>Part renderers that only record the mesh asset id of the part they are given.\<close>

definition recorder :: "('a, ovrAvatarAssetID list) part_renderers" where
  "recorder =
     \<lparr>r_SkinnedMeshPart = (\<lambda>mesh visibilityMask world view proj viewPos isRight s.
        Inr (s @ [sm_meshAssetID mesh])),
      r_SkinnedMeshPartPBS = (\<lambda>mesh visibilityMask world view proj viewPos isRight s.
        Inr (s @ [pbs_meshAssetID mesh])),
      r_Projector = (\<lambda>projector avatar visibilityMask world view proj viewPos s. Inr s)\<rparr>"

section \<open>Example inputs\<close>

text \<open>A chain of three joints, each one unit above its parent, with integer scalars.\<close>

definition translate_up :: "int ovrAvatarTransform" where
  "translate_up = \<lparr>position = Vector3f 0 1 0, orientation = Quatf 0 0 0 1, scale = Vector3f 1 1 1\<rparr>"

definition chain3 :: "int ovrAvatarSkinnedMeshPose" where
  "chain3 = \<lparr>jointCount = 3, jointTransform = [translate_up, translate_up, translate_up],
             jointParents = [-1, 0, 1]\<rparr>"

text \<open>The other examples have rational scalars. A recorded packet of two seconds.\<close>

definition packet2 :: "rat ovrAvatarPacket" where
  "packet2 = \<lparr>durationSeconds = 2\<rparr>"

definition identity_transform :: "rat ovrAvatarTransform" where
  "identity_transform = \<lparr>position = Vector3f 0 0 0, orientation = Quatf 0 0 0 1, scale = Vector3f 1 1 1\<rparr>"

text \<open>
  Two transforms with the same matrix: a mirror in x and y, and a half turn about z.
\<close>

definition mirrored_xy :: "rat ovrAvatarTransform" where
  "mirrored_xy = \<lparr>position = Vector3f 0 0 0, orientation = Quatf 0 0 0 1, scale = Vector3f (- 1) (- 1) 1\<rparr>"

definition half_turn_z :: "rat ovrAvatarTransform" where
  "half_turn_z = \<lparr>position = Vector3f 0 0 0, orientation = Quatf 0 0 1 0, scale = Vector3f 1 1 1\<rparr>"

text \<open>
  The chain of three joints again, a mesh with that bind pose, a mesh whose only joint has
  the scale 0, and a fresh \<open>MeshData\<close> with room for four joints.
\<close>

definition up1 :: "rat ovrAvatarTransform" where
  "up1 = \<lparr>position = Vector3f 0 1 0, orientation = Quatf 0 0 0 1, scale = Vector3f 1 1 1\<rparr>"

definition chain3r :: "rat ovrAvatarSkinnedMeshPose" where
  "chain3r = \<lparr>jointCount = 3, jointTransform = [up1, up1, up1], jointParents = [-1, 0, 1]\<rparr>"



definition fresh_mesh :: "rat MeshData" where
  "fresh_mesh = \<lparr>vertexArray = 1, vertexBuffer = 2, elementBuffer = 3, elementCount = 0,
     bindPose = replicate 4 mat4_identity, inverseBindPose = replicate 4 (Finite mat4_identity)\<rparr>"

text \<open>
  A state with an empty asset cache; a material with one layer whose texture 7 is not
  loaded, in an SDK with two layer slots; states in which the normal map 9 and the mesh
  20 are loaded; a render part and an avatar that use them.
\<close>

definition empty_state :: "rat gstate" where
  "empty_state = \<lparr>assetMap = Map.empty, gl = [], elapsedSeconds = 0, skinnedMeshProgram = 1,
     skinnedMeshPBSProgram = 2, debugLineProgram = 3, debugVertexArray = 4,
     alloca_fill = mat4_identity\<rparr>"

definition K2 :: ovr_constants where
  "K2 = \<lparr>OVR_AVATAR_MAX_MATERIAL_LAYER_COUNT = 2, ovrAvatarVisibilityFlag_SelfOccluding = 4\<rparr>"

definition zero_layer :: "rat ovrAvatarMaterialLayerState" where
  "zero_layer = \<lparr>blendMode = 0, sampleMode = 0, maskType = 0, layerColor = Vec4 0 0 0 0,
     sampleParameters = Vec4 0 0 0 0, sampleTexture = 0, sampleScaleOffset = Vec4 0 0 0 0,
     maskParameters = Vec4 0 0 0 0, maskAxis = Vec4 0 0 0 0\<rparr>"

definition layer_a :: "rat ovrAvatarMaterialLayerState" where
  "layer_a = \<lparr>blendMode = 1, sampleMode = 2, maskType = 3, layerColor = Vec4 1 1 1 1,
     sampleParameters = Vec4 0 0 0 0, sampleTexture = 7, sampleScaleOffset = Vec4 1 1 0 0,
     maskParameters = Vec4 0 0 0 0, maskAxis = Vec4 0 1 0 0\<rparr>"

definition material_a :: "rat ovrAvatarMaterialState" where
  "material_a = \<lparr>baseColor = Vec4 1 1 1 1, baseMaskType = 0, baseMaskParameters = Vec4 0 0 0 0,
     baseMaskAxis = Vec4 0 0 0 0, alphaMaskTextureID = 0, alphaMaskScaleOffset = Vec4 1 1 0 0,
     normalMapTextureID = 9, normalMapScaleOffset = Vec4 1 1 0 0,
     parallaxMapTextureID = 0, parallaxMapScaleOffset = Vec4 1 1 0 0,
     roughnessMapTextureID = 0, roughnessMapScaleOffset = Vec4 1 1 0 0,
     layerCount = 1, layers = [layer_a, zero_layer]\<rparr>"

definition loaded_state :: "rat gstate" where
  "loaded_state = empty_state\<lparr>assetMap := [9 \<mapsto> TexturePtr \<lparr>textureID = 33\<rparr>]\<rparr>"

definition frame_state :: "rat gstate" where
  "frame_state = empty_state\<lparr>assetMap := [9 \<mapsto> TexturePtr \<lparr>textureID = 33\<rparr>, 20 \<mapsto> MeshPtr fresh_mesh]\<rparr>"

definition body_part :: "rat ovrAvatarRenderPart_SkinnedMeshRender" where
  "body_part = \<lparr>sm_localTransform = identity_transform, sm_visibilityMask = 1, sm_meshAssetID = 20,
     sm_skinnedPose = chain3r, sm_materialState = material_a\<rparr>"

definition one_part_avatar :: "rat ovrAvatar" where
  "one_part_avatar = [\<lparr>transform = identity_transform, renderParts = [SkinnedMeshRender body_part]\<rparr>]"

text \<open>An avatar of six components with one render part each, the meshes 10 to 15.\<close>

definition no_joints :: "rat ovrAvatarSkinnedMeshPose" where
  "no_joints = \<lparr>jointCount = 0, jointTransform = [], jointParents = []\<rparr>"

definition pbs_part :: "ovrAvatarAssetID \<Rightarrow> rat ovrAvatarRenderPart" where
  "pbs_part k = SkinnedMeshRenderPBS
     \<lparr>pbs_localTransform = identity_transform, pbs_visibilityMask = 1, pbs_meshAssetID = k,
      pbs_albedoTextureAssetID = 0, pbs_surfaceTextureAssetID = 0, pbs_skinnedPose = no_joints\<rparr>"

definition six_components :: "rat ovrAvatar" where
  "six_components = map (\<lambda>k. \<lparr>transform = identity_transform, renderParts = [pbs_part k]\<rparr>)
                        [10, 11, 12, 13, 14, 15]"

text \<open>Two block-compressed textures: 65536 by 65536 with one level, 8 by 8 with three.\<close>

definition huge_dxt5 :: ovrAvatarTextureAssetData where
  "huge_dxt5 = \<lparr>format = ovrAvatarTextureFormat_DXT5, sizeX = 65536, sizeY = 65536, mipCount = 1\<rparr>"

definition small_dxt1 :: ovrAvatarTextureAssetData where
  "small_dxt1 = \<lparr>format = ovrAvatarTextureFormat_DXT1, sizeX = 8, sizeY = 8, mipCount = 3\<rparr>"

section \<open>Sequencing\<close>

lemma bind_err_Inr [simp]: "bind_err (Inr v) f = f v"
  by (simp add: bind_err_def)

lemma bind_err_Inl [simp]: "bind_err (Inl e) f = Inl e"
  by (simp add: bind_err_def)

lemma seq_err_append: "seq_err (fs @ gs) s = bind_err (seq_err fs s) (seq_err gs)"
  by (induction fs arbitrary: s) (auto simp add: bind_err_def split: sum.splits)

lemma seq_err_concat: "seq_err (concat fss) s = seq_err (map seq_err fss) s"
  by (induction fss arbitrary: s) (auto simp add: seq_err_append bind_err_def split: sum.splits)

lemma seq_err_Cons_Inr: "f s = Inr s' \<Longrightarrow> seq_err (f # fs) s = seq_err fs s'"
  by simp

lemma assetMap_glcalls [simp]: "assetMap (glcalls cs s) = assetMap s"
  by (simp add: glcalls_def)

lemma gl_glcalls [simp]: "gl (glcalls cs s) = gl s @ cs"
  by (simp add: glcalls_def)

section \<open>Skeleton pose evaluation\<close>

lemma computeWorldPose_loop_invariant:
  fixes localPose :: "'a::{zero,one,plus,minus,times} ovrAvatarSkinnedMeshPose"
  assumes "jointCount localPose \<le> length (jointTransform localPose)"
    and "jointCount localPose \<le> length (jointParents localPose)"
    and "\<forall>k < jointCount localPose. jointParents localPose ! k < int k"
  shows "jointCount localPose - i = n \<Longrightarrow> i \<le> jointCount localPose \<Longrightarrow> jointCount localPose \<le> length w \<Longrightarrow>
    \<exists>w'. computeWorldPose_loop localPose i (w, ws) = Inr (w', ws @ [i..<jointCount localPose])
       \<and> length w' = length w
       \<and> (\<forall>k. k < i \<or> jointCount localPose \<le> k \<longrightarrow> w' ! k = w ! k)
       \<and> (\<forall>k. i \<le> k \<and> k < jointCount localPose \<longrightarrow>
             w' ! k = (if jointParents localPose ! k < 0
                       then glmFromOvrAvatarTransform (jointTransform localPose ! k)
                       else mat4_mul (w' ! nat (jointParents localPose ! k))
                              (glmFromOvrAvatarTransform (jointTransform localPose ! k))))"
proof (induction n arbitrary: i w ws)
  case 0
  then have "i = jointCount localPose" by simp
  then show ?case by (subst computeWorldPose_loop.simps) auto
next
  case (Suc n)
  let ?N = "jointCount localPose"
  let ?local = "glmFromOvrAvatarTransform (jointTransform localPose ! i)"
  let ?p = "jointParents localPose ! i"
  from Suc.prems have i: "i < ?N" by simp
  with assms have bounds: "i < length (jointTransform localPose)" "i < length (jointParents localPose)"
    and par: "?p < int i" by auto
  from i Suc.prems have iw: "i < length w" by simp
  define v where "v = (if ?p < 0 then ?local else mat4_mul (w ! nat ?p) ?local)"
  have step: "computeWorldPose_loop localPose i (w, ws)
      = computeWorldPose_loop localPose (Suc i) (w[i := v], ws @ [i])"
  proof -
    have "\<not> ?p < 0 \<Longrightarrow> nat ?p < length w" using par iw by linarith
    then show ?thesis
      using i bounds iw by (subst computeWorldPose_loop.simps) (auto simp add: v_def Let_def)
  qed
  from Suc.prems i have "?N - Suc i = n" "Suc i \<le> ?N" "?N \<le> length (w[i := v])" by simp_all
  from Suc.IH[OF this, of "ws @ [i]"] obtain w' where
    r: "computeWorldPose_loop localPose (Suc i) (w[i := v], ws @ [i]) = Inr (w', (ws @ [i]) @ [Suc i..<?N])"
    and len: "length w' = length (w[i := v])"
    and keep: "\<forall>k. k < Suc i \<or> ?N \<le> k \<longrightarrow> w' ! k = w[i := v] ! k"
    and eqs: "\<forall>k. Suc i \<le> k \<and> k < ?N \<longrightarrow>
             w' ! k = (if jointParents localPose ! k < 0
                       then glmFromOvrAvatarTransform (jointTransform localPose ! k)
                       else mat4_mul (w' ! nat (jointParents localPose ! k))
                              (glmFromOvrAvatarTransform (jointTransform localPose ! k)))"
    by blast
  have wi: "w' ! i = v" using keep iw by simp
  have wpar: "0 \<le> ?p \<Longrightarrow> w' ! nat ?p = w ! nat ?p"
  proof -
    assume "0 \<le> ?p"
    with par have "nat ?p < i" by linarith
    then show ?thesis using keep by simp
  qed
  have "ws @ [i..<?N] = (ws @ [i]) @ [Suc i..<?N]"
    using i by (simp add: upt_conv_Cons)
  moreover have "\<forall>k. k < i \<or> ?N \<le> k \<longrightarrow> w' ! k = w ! k"
    using keep i by auto
  moreover have "\<forall>k. i \<le> k \<and> k < ?N \<longrightarrow>
             w' ! k = (if jointParents localPose ! k < 0
                       then glmFromOvrAvatarTransform (jointTransform localPose ! k)
                       else mat4_mul (w' ! nat (jointParents localPose ! k))
                              (glmFromOvrAvatarTransform (jointTransform localPose ! k)))"
  proof (intro allI impI)
    fix k assume k: "i \<le> k \<and> k < ?N"
    show "w' ! k = (if jointParents localPose ! k < 0
                       then glmFromOvrAvatarTransform (jointTransform localPose ! k)
                       else mat4_mul (w' ! nat (jointParents localPose ! k))
                              (glmFromOvrAvatarTransform (jointTransform localPose ! k)))"
    proof (cases "k = i")
      case True
      then show ?thesis using wi wpar by (simp add: v_def)
    next
      case False
      with k have "Suc i \<le> k \<and> k < ?N" by simp
      with eqs show ?thesis by blast
    qed
  qed
  ultimately show ?case using step r len by simp
qed

lemma chain3_parents: "\<forall>i < jointCount chain3. jointParents chain3 ! i < int i"
  by (simp add: chain3_def less_Suc_eq numeral_3_eq_3)

text \<open>
  Claim C1. When every array of the pose holds at least \<open>jointCount\<close> entries, the output
  buffer has room for \<open>jointCount\<close> matrices and every parent index is below the index of
  its joint (a negative parent index marks a root), \<open>computeWorldPose\<close> returns; it assigns
  the indices \<open>0, 1, \<dots>, jointCount - 1\<close> in this order, each once; afterwards
  \<open>world[i]\<close> is the matrix of the local transform of joint \<open>i\<close> when \<open>i\<close> is a root and
  \<open>world[parent[i]] * local[i]\<close> otherwise; the buffer is unchanged beyond \<open>jointCount\<close>.
  The scalar type is arbitrary: no law of arithmetic is used.
\<close>

theorem computeWorldPose_correct:
  fixes localPose :: "'a::{zero,one,plus,minus,times} ovrAvatarSkinnedMeshPose"
  assumes "jointCount localPose \<le> length (jointTransform localPose)"
    and "jointCount localPose \<le> length (jointParents localPose)"
    and "jointCount localPose \<le> length worldPose"
    and "\<forall>i < jointCount localPose. jointParents localPose ! i < int i"
  shows "\<exists>world. computeWorldPose localPose worldPose = Inr (world, [0..<jointCount localPose])
       \<and> length world = length worldPose
       \<and> (\<forall>i < jointCount localPose.
             world ! i = (if jointParents localPose ! i < 0
                          then glmFromOvrAvatarTransform (jointTransform localPose ! i)
                          else mat4_mul (world ! nat (jointParents localPose ! i))
                                 (glmFromOvrAvatarTransform (jointTransform localPose ! i))))
       \<and> (\<forall>i. jointCount localPose \<le> i \<longrightarrow> world ! i = worldPose ! i)"
  using computeWorldPose_loop_invariant [OF assms(1,2,4) refl le0 assms(3), of "[]"]
  unfolding computeWorldPose_def by auto

theorem computeWorldPose_correct_witness:
  "\<exists>world. computeWorldPose chain3 (replicate 3 mat4_identity) = Inr (world, [0..<jointCount chain3])
       \<and> length world = length (replicate 3 (mat4_identity :: int mat4))
       \<and> (\<forall>i < jointCount chain3.
             world ! i = (if jointParents chain3 ! i < 0
                          then glmFromOvrAvatarTransform (jointTransform chain3 ! i)
                          else mat4_mul (world ! nat (jointParents chain3 ! i))
                                 (glmFromOvrAvatarTransform (jointTransform chain3 ! i))))
       \<and> (\<forall>i. jointCount chain3 \<le> i \<longrightarrow> world ! i = replicate 3 mat4_identity ! i)"
proof -
  have h1: "jointCount chain3 \<le> length (jointTransform chain3)" by (simp add: chain3_def)
  have h2: "jointCount chain3 \<le> length (jointParents chain3)" by (simp add: chain3_def)
  have h3: "jointCount chain3 \<le> length (replicate 3 (mat4_identity :: int mat4))" by (simp add: chain3_def)
  show ?thesis by (rule computeWorldPose_correct [OF h1 h2 h3 chain3_parents])
qed

text \<open>The scenario of the specification: the world positions are (0,1,0), (0,2,0), (0,3,0).\<close>

lemma chain3_world_positions:
  "map_sum id (map col3 \<circ> fst) (computeWorldPose chain3 (replicate 3 mat4_identity))
     = Inr [Vec4 0 1 0 1, Vec4 0 2 0 1, Vec4 0 3 0 1]"
  by code_simp

text \<open>
  For a well-formed pose the first \<open>jointCount\<close> world matrices are determined by the
  pose alone, whatever the buffer held before.
\<close>

lemma computeWorldPose_result:
  fixes pose :: "'a::{zero,one,plus,minus,times} ovrAvatarSkinnedMeshPose"
  assumes "pose_wellformed pose" and "jointCount pose \<le> length w"
  shows "\<exists>world. computeWorldPose pose w = Inr (world, [0..<jointCount pose])
       \<and> length world = length w
       \<and> (\<forall>i < jointCount pose.
             world ! i = (if jointParents pose ! i < 0
                          then glmFromOvrAvatarTransform (jointTransform pose ! i)
                          else mat4_mul (world ! nat (jointParents pose ! i))
                                 (glmFromOvrAvatarTransform (jointTransform pose ! i))))"
proof -
  from assms(1) have a: "jointCount pose \<le> length (jointTransform pose)"
    "jointCount pose \<le> length (jointParents pose)"
    "\<forall>k < jointCount pose. jointParents pose ! k < int k"
    by (simp_all add: pose_wellformed_def)
  from computeWorldPose_loop_invariant [OF a refl le0 assms(2), of "[]"]
  show ?thesis unfolding computeWorldPose_def by auto
qed


section \<open>Transform conversion\<close>

text \<open>
  The conversion of a transform to a matrix is not injective, even on transforms with
  nonzero scale: the two transforms below differ and have the same matrix. The way back,
  \<^verbatim>\<open>_ovrAvatarTransformFromGlm\<close>, is \<^verbatim>\<open>glm::decompose\<close> and is not modelled.
\<close>

lemma glmFromOvrAvatarTransform_not_injective:
  "glmFromOvrAvatarTransform mirrored_xy = glmFromOvrAvatarTransform half_turn_z
   \<and> mirrored_xy \<noteq> half_turn_z"
  by (simp add: mirrored_xy_def half_turn_z_def glmFromOvrAvatarTransform_def glm_translate_def
      glm_mat4_cast_def glm_scale_def two_def mat4_mul_def mat4_mul_col_def vec4_add_def
      vec4_scale_def mat4_identity_def Let_def)

section \<open>Reflection matrix\<close>




section \<open>Frame update\<close>

text \<open>
  Claim C3. In playback mode (a packet is given) the cursor is advanced by the elapsed
  seconds. If the advanced cursor is greater than the duration of the packet, the pose is
  finalised with time 0 and the cursor is set to 0, whatever the overshoot was; otherwise
  the cursor keeps the advanced value. The pose is then sampled from the packet at the
  resulting cursor, and finalised with the elapsed seconds. The scalar type is arbitrary.
\<close>

theorem updateAvatar_playback:
  fixes deltaSeconds t :: "'a::{zero,plus,ord}"
  shows "updateAvatar global_avatar avatar deltaSeconds hmd left right mic (Some pkt) (Some t) calls =
     Inr (calls
            @ (if t + deltaSeconds > durationSeconds pkt then [ovrAvatarPose_Finalize avatar 0] else [])
            @ [ovrAvatar_UpdatePoseFromPacket avatar pkt
                 (if t + deltaSeconds > durationSeconds pkt then 0 else t + deltaSeconds),
               ovrAvatarPose_Finalize avatar deltaSeconds],
          Some (if t + deltaSeconds > durationSeconds pkt then 0 else t + deltaSeconds))"
  by (simp add: updateAvatar_def Let_def)

text \<open>
  The scenario of the specification: a packet of 2 seconds, updates of 1.5 and then 1
  second. The second update resets the cursor to 0, not to 0.5.
\<close>

theorem updateAvatar_playback_witness:
  "updateAvatar 0 0 (3 / 2) identity_transform () () None (Some packet2) (Some 0) [] =
     Inr ([ovrAvatar_UpdatePoseFromPacket 0 packet2 (3 / 2), ovrAvatarPose_Finalize 0 (3 / 2)],
          Some (3 / 2))
   \<and> updateAvatar 0 0 1 identity_transform () () None (Some packet2) (Some (3 / 2)) [] =
     Inr ([ovrAvatarPose_Finalize 0 0, ovrAvatar_UpdatePoseFromPacket 0 packet2 0,
           ovrAvatarPose_Finalize 0 1],
          Some 0)"
  using updateAvatar_playback [of 0 0 "3 / 2" identity_transform "()" "()" None packet2 0 "[]"]
    updateAvatar_playback [of 0 0 1 identity_transform "()" "()" None packet2 "3 / 2" "[]"]
  by (simp add: packet2_def)

section \<open>Skinning\<close>







lemma setMeshState_skin_result:
  "count - i = n \<Longrightarrow> count \<le> length (inverseBindPose mesh) \<Longrightarrow> count \<le> length worldPoses \<Longrightarrow>
   count \<le> length skinnedPoses \<Longrightarrow>
   \<exists>sk. setMeshState_skin (MeshPtr mesh) count worldPoses i skinnedPoses = Inr sk
      \<and> length sk = length skinnedPoses
      \<and> (\<forall>j. i \<le> j \<and> j < count \<longrightarrow> sk ! j = fmat4_mul (worldPoses ! j) (inverseBindPose mesh ! j))
      \<and> (\<forall>j. j < i \<longrightarrow> sk ! j = skinnedPoses ! j)"
proof (induction n arbitrary: i skinnedPoses)
  case 0
  then have "\<not> i < count" by simp
  then show ?case
    by (subst setMeshState_skin.simps) (auto intro!: exI [of _ skinnedPoses])
next
  case (Suc n)
  then have i: "i < count" by simp
  let ?s1 = "skinnedPoses[i := fmat4_mul (worldPoses ! i) (inverseBindPose mesh ! i)]"
  have step: "setMeshState_skin (MeshPtr mesh) count worldPoses i skinnedPoses
      = setMeshState_skin (MeshPtr mesh) count worldPoses (Suc i) ?s1"
    using i Suc.prems by (subst setMeshState_skin.simps) (simp add: deref_MeshData_def)
  from Suc.prems have "count - Suc i = n" "count \<le> length ?s1" by simp_all
  from Suc.IH [OF this(1) Suc.prems(2,3) this(2)] obtain sk where
    r: "setMeshState_skin (MeshPtr mesh) count worldPoses (Suc i) ?s1 = Inr sk"
    and len: "length sk = length ?s1"
    and new: "\<forall>j. Suc i \<le> j \<and> j < count \<longrightarrow> sk ! j = fmat4_mul (worldPoses ! j) (inverseBindPose mesh ! j)"
    and old: "\<forall>j. j < Suc i \<longrightarrow> sk ! j = ?s1 ! j"
    by blast
  have "sk ! i = fmat4_mul (worldPoses ! i) (inverseBindPose mesh ! i)"
    using old i Suc.prems(4) by simp
  with new have "\<forall>j. i \<le> j \<and> j < count \<longrightarrow> sk ! j = fmat4_mul (worldPoses ! j) (inverseBindPose mesh ! j)"
    by (metis Suc_leI le_neq_implies_less)
  moreover have "\<forall>j. j < i \<longrightarrow> sk ! j = skinnedPoses ! j"
    using old by simp
  ultimately show ?case
    unfolding step r using len by auto
qed

lemma setMeshState_result:
  fixes skinnedPose :: "'a::{zero,one,plus,minus,times} ovrAvatarSkinnedMeshPose"
  assumes wf: "pose_wellformed skinnedPose"
    and ib: "jointCount skinnedPose \<le> length (inverseBindPose mesh)"
  shows "\<exists>world. (\<forall>i < jointCount skinnedPose.
             world ! i = (if jointParents skinnedPose ! i < 0
                          then glmFromOvrAvatarTransform (jointTransform skinnedPose ! i)
                          else mat4_mul (world ! nat (jointParents skinnedPose ! i))
                                 (glmFromOvrAvatarTransform (jointTransform skinnedPose ! i))))
      \<and> setMeshState program localTransform (MeshPtr mesh) skinnedPose worldM view proj viewPos s =
         Inr (glcalls [Uniform3fv program ''viewPos'' viewPos,
                       UniformMatrix4fv program ''world''
                         [Finite (mat4_mul worldM (glmFromOvrAvatarTransform localTransform))],
                       UniformMatrix4fv program ''viewProj'' [Finite (mat4_mul proj view)],
                       UniformMatrix4fv program ''meshPose''
                         (map (\<lambda>i. fmat4_mul (world ! i) (inverseBindPose mesh ! i))
                            [0..<jointCount skinnedPose])] s)"
proof -
  let ?N = "jointCount skinnedPose"
  have "?N \<le> length (replicate ?N (alloca_fill s))" by simp
  from computeWorldPose_result [OF wf this] obtain world where
    w: "computeWorldPose skinnedPose (replicate ?N (alloca_fill s)) = Inr (world, [0..<?N])"
    and wl: "length world = ?N"
    and we: "\<forall>i < ?N.
             world ! i = (if jointParents skinnedPose ! i < 0
                          then glmFromOvrAvatarTransform (jointTransform skinnedPose ! i)
                          else mat4_mul (world ! nat (jointParents skinnedPose ! i))
                                 (glmFromOvrAvatarTransform (jointTransform skinnedPose ! i)))"
    by auto
  have "?N \<le> length world" "?N \<le> length (map Finite world)" using wl by simp_all
  from setMeshState_skin_result [OF refl ib this, of 0] obtain sk where
    r: "setMeshState_skin (MeshPtr mesh) ?N world 0 (map Finite world) = Inr sk"
    and len: "length sk = ?N"
    and new: "\<forall>j. j < ?N \<longrightarrow> sk ! j = fmat4_mul (world ! j) (inverseBindPose mesh ! j)"
    using wl by auto
  have "take ?N sk = map (\<lambda>i. fmat4_mul (world ! i) (inverseBindPose mesh ! i)) [0..<?N]"
    using len new by (simp add: list_eq_iff_nth_eq)
  then have "setMeshState program localTransform (MeshPtr mesh) skinnedPose worldM view proj viewPos s =
         Inr (glcalls [Uniform3fv program ''viewPos'' viewPos,
                       UniformMatrix4fv program ''world''
                         [Finite (mat4_mul worldM (glmFromOvrAvatarTransform localTransform))],
                       UniformMatrix4fv program ''viewProj'' [Finite (mat4_mul proj view)],
                       UniformMatrix4fv program ''meshPose''
                         (map (\<lambda>i. fmat4_mul (world ! i) (inverseBindPose mesh ! i))
                            [0..<jointCount skinnedPose])] s)"
    by (simp add: setMeshState_def Let_def w r)
  with we show ?thesis by blast
qed






section \<open>Texture binders and the asset cache\<close>

lemma null_inserted_empty [simp]: "null_inserted m {} = m"
  by (simp add: null_inserted_def)

lemma null_inserted_zero [simp]: "null_inserted m {0} = m"
  by (auto simp add: null_inserted_def fun_eq_iff)

lemma null_inserted_twice: "null_inserted (null_inserted m A) B = null_inserted m (A \<union> B)"
  by (auto simp add: null_inserted_def fun_eq_iff)

lemma bound_texture_null_inserted [simp]: "bound_texture (null_inserted m A) k = bound_texture m k"
  by (simp add: bound_texture_def null_inserted_def)

lemma null_inserted_MeshPtr [simp]: "null_inserted m A k = Some (MeshPtr d) \<longleftrightarrow> m k = Some (MeshPtr d)"
  by (simp add: null_inserted_def)

lemma dom_null_inserted: "dom (null_inserted m A) = dom m \<union> (A - {0})"
  by (auto simp add: null_inserted_def dom_def)

lemma setTextureSampler_absent:
  assumes "assetID \<noteq> 0" and "assetMap s assetID = None \<or> assetMap s assetID = Some NullPtr"
  shows "setTextureSampler program textureUnit uniformName assetID s = Inl NullDeref"
  using assms
  by (auto simp add: setTextureSampler_def setTextureSampler_textureID_def assetMap_index_def
      deref_TextureData_def bind_err_def)

lemma setTextureSamplers_textureID_result:
  assumes "assetID \<noteq> 0 \<longrightarrow> (\<forall>d. assetMap s assetID \<noteq> Some (MeshPtr d))"
  shows "setTextureSamplers_textureID assetID s =
    Inr (bound_texture (assetMap s) assetID, s\<lparr>assetMap := null_inserted (assetMap s) {assetID}\<rparr>)"
proof (cases "assetID = 0")
  case True
  then show ?thesis by (simp add: setTextureSamplers_textureID_def bound_texture_def)
next
  case False
  show ?thesis
  proof (cases "assetMap s assetID")
    case None
    have "(assetMap s)(assetID \<mapsto> NullPtr) = null_inserted (assetMap s) {assetID}"
      using None False by (auto simp add: null_inserted_def fun_eq_iff)
    then show ?thesis
      using None False
      by (simp add: setTextureSamplers_textureID_def assetMap_index_def bound_texture_def)
  next
    case (Some p)
    have "null_inserted (assetMap s) {assetID} = assetMap s"
      using Some by (auto simp add: null_inserted_def fun_eq_iff)
    then show ?thesis
      using Some False assms
      by (cases p) (simp_all add: setTextureSamplers_textureID_def assetMap_index_def bound_texture_def
          deref_TextureData_def bind_err_def)
  qed
qed

lemma setTextureSamplers_loop_result:
  shows "count - i = n \<Longrightarrow> count \<le> length textureUnits \<Longrightarrow> count \<le> length assetIDs \<Longrightarrow>
    (\<forall>j. i \<le> j \<and> j < count \<longrightarrow> assetIDs ! j \<noteq> 0
          \<longrightarrow> (\<forall>d. assetMap s (assetIDs ! j) \<noteq> Some (MeshPtr d))) \<Longrightarrow>
    setTextureSamplers_loop count textureUnits assetIDs i s =
      Inr (s\<lparr>assetMap := null_inserted (assetMap s) (set (map ((!) assetIDs) [i..<count])),
              gl := gl s @ concat (map (\<lambda>j. [ActiveTexture (textureUnits ! j),
                                               BindTexture (bound_texture (assetMap s) (assetIDs ! j))])
                                     [i..<count])\<rparr>)"
proof (induction n arbitrary: i s)
  case 0
  then have "\<not> i < count" by simp
  then show ?case by (subst setTextureSamplers_loop.simps) simp
next
  case (Suc n)
  then have i: "i < count" by simp
  let ?s1 = "glcalls [ActiveTexture (textureUnits ! i), BindTexture (bound_texture (assetMap s) (assetIDs ! i))]
               (s\<lparr>assetMap := null_inserted (assetMap s) {assetIDs ! i}\<rparr>)"
  have nb: "assetIDs ! i \<noteq> 0 \<longrightarrow> (\<forall>d. assetMap s (assetIDs ! i) \<noteq> Some (MeshPtr d))"
    using Suc.prems(4) i by simp
  have step: "setTextureSamplers_loop count textureUnits assetIDs i s
      = setTextureSamplers_loop count textureUnits assetIDs (Suc i) ?s1"
    using i Suc.prems(2,3)
    by (subst setTextureSamplers_loop.simps) (simp add: setTextureSamplers_textureID_result [OF nb])
  have "count - Suc i = n" using Suc.prems(1) by simp
  moreover have "\<forall>j. Suc i \<le> j \<and> j < count \<longrightarrow> assetIDs ! j \<noteq> 0
          \<longrightarrow> (\<forall>d. assetMap ?s1 (assetIDs ! j) \<noteq> Some (MeshPtr d))"
    using Suc.prems(4) by simp
  ultimately have "setTextureSamplers_loop count textureUnits assetIDs (Suc i) ?s1 =
      Inr (?s1\<lparr>assetMap := null_inserted (assetMap ?s1) (set (map ((!) assetIDs) [Suc i..<count])),
              gl := gl ?s1 @ concat (map (\<lambda>j. [ActiveTexture (textureUnits ! j),
                                               BindTexture (bound_texture (assetMap ?s1) (assetIDs ! j))])
                                     [Suc i..<count])\<rparr>)"
    using Suc.IH [of "Suc i" ?s1] Suc.prems(2,3) by blast
  then show ?case
    unfolding step using i
    by (simp add: upt_conv_Cons null_inserted_twice glcalls_def)
qed

lemma map_nth_upt_take: "n \<le> length xs \<Longrightarrow> map ((!) xs) [0..<n] = take n xs"
  by (simp add: list_eq_iff_nth_eq)

lemma setTextureSamplers_result:
  assumes "count \<le> length textureUnits" and "count \<le> length assetIDs"
    and "\<forall>k \<in> set (take count assetIDs). k \<noteq> 0 \<longrightarrow> (\<forall>d. assetMap s k \<noteq> Some (MeshPtr d))"
  shows "setTextureSamplers program uniformName count textureUnits assetIDs s =
      Inr (s\<lparr>assetMap := null_inserted (assetMap s) (set (take count assetIDs)),
              gl := gl s @ concat (map (\<lambda>j. [ActiveTexture (textureUnits ! j),
                                               BindTexture (bound_texture (assetMap s) (assetIDs ! j))])
                                     [0..<count])
                     @ [Uniform1iv program uniformName (take count textureUnits)]\<rparr>)"
proof -
  have "\<forall>j. 0 \<le> j \<and> j < count \<longrightarrow> assetIDs ! j \<noteq> 0
          \<longrightarrow> (\<forall>d. assetMap s (assetIDs ! j) \<noteq> Some (MeshPtr d))"
  proof (intro allI impI)
    fix j d assume "0 \<le> j \<and> j < count" and nz: "assetIDs ! j \<noteq> 0"
    then have "assetIDs ! j \<in> set (take count assetIDs)"
      using assms(2) by (metis in_set_conv_nth length_take min.absorb2 nth_take)
    with assms(3) nz show "assetMap s (assetIDs ! j) \<noteq> Some (MeshPtr d)" by blast
  qed
  from setTextureSamplers_loop_result [OF refl assms(1,2) this]
  show ?thesis
    by (simp add: setTextureSamplers_def bind_err_def glcalls_def map_nth_upt_take [OF assms(2)])
qed

text \<open>
  Claim C4. For a nonzero asset id that is not in the cache, the layer-table binder
  \<open>setTextureSamplers\<close> binds texture 0 at the requested unit and goes on. The
  single-texture binder \<open>setTextureSampler\<close> does not: it reads the texture name through
  the null pointer that the lookup returned, which stops the program. The theorem
  evaluates both binders on the empty cache and the asset id 7.
\<close>

theorem setTextureSampler_absent_crashes:
  "setTextureSampler 1 1 ''alphaMask'' 7 empty_state = Inl NullDeref
   \<and> setTextureSamplers 1 ''layerSurfaces'' 1 [1] [7] empty_state =
       Inr (empty_state\<lparr>assetMap := [7 \<mapsto> NullPtr],
                        gl := [ActiveTexture 1, BindTexture 0, Uniform1iv 1 ''layerSurfaces'' [1]]\<rparr>)"
proof
  show "setTextureSampler 1 1 ''alphaMask'' 7 empty_state = Inl NullDeref"
    by (rule setTextureSampler_absent) (simp_all add: empty_state_def)
next
  have "null_inserted (assetMap empty_state) (set (take 1 [7])) = [7 \<mapsto> NullPtr]"
    by (auto simp add: null_inserted_def empty_state_def fun_eq_iff)
  moreover have "bound_texture (assetMap empty_state) 7 = 0"
    by (simp add: bound_texture_def empty_state_def)
  ultimately show "setTextureSamplers 1 ''layerSurfaces'' 1 [1] [7] empty_state =
       Inr (empty_state\<lparr>assetMap := [7 \<mapsto> NullPtr],
                        gl := [ActiveTexture 1, BindTexture 0, Uniform1iv 1 ''layerSurfaces'' [1]]\<rparr>)"
    by (subst setTextureSamplers_result) (simp_all add: empty_state_def)
qed



section \<open>Material binder\<close>

lemma LayerUniforms_prefix_0: "LayerUniforms_prefix M state firstSlot 0 = LayerUniforms_zero M"
  by (simp add: LayerUniforms_prefix_def LayerUniforms_zero_def)

lemma list_update_filled:
  assumes "i < M" and "i < length ls"
  shows "(map f (take i ls) @ replicate (M - i) z)[i := f (ls ! i)]
       = map f (take (Suc i) ls) @ replicate (M - Suc i) z"
proof -
  from assms(1) have "replicate (M - i) z = z # replicate (M - Suc i) z"
    by (metis Suc_diff_Suc replicate_Suc)
  then show ?thesis
    using assms(2) by (simp add: list_update_append take_Suc_conv_app_nth)
qed

lemma list_update_slots:
  assumes "i < M"
  shows "(map g [0..<i] @ replicate (M - i) z)[i := g i] = map g [0..<Suc i] @ replicate (M - Suc i) z"
proof -
  from assms have "replicate (M - i) z = z # replicate (M - Suc i) z"
    by (metis Suc_diff_Suc replicate_Suc)
  then show ?thesis by (simp add: list_update_append)
qed

lemma setMaterialState_layers_step:
  assumes "i < layerCount state" and "i < M" and "i < length (layers state)"
  shows "setMaterialState_layers M state i (LayerUniforms_prefix M state firstSlot i, firstSlot + int i)
       = setMaterialState_layers M state (Suc i)
           (LayerUniforms_prefix M state firstSlot (Suc i), firstSlot + int (Suc i))"
  using assms
  apply (subst setMaterialState_layers.simps)
  apply (simp add: Let_def)
  apply (simp add: LayerUniforms_prefix_def Let_def list_update_filled
      list_update_slots [where g = "\<lambda>i. firstSlot + int i"] add.assoc del: upt_Suc)
  apply (simp add: add.commute)
  done

lemma setMaterialState_layers_from:
  assumes "layerCount state \<le> M" and "layerCount state \<le> length (layers state)"
  shows "layerCount state - i = n \<Longrightarrow> i \<le> layerCount state \<Longrightarrow>
     setMaterialState_layers M state i (LayerUniforms_prefix M state firstSlot i, firstSlot + int i)
       = Inr (LayerUniforms_prefix M state firstSlot (layerCount state), firstSlot + int (layerCount state))"
proof (induction n arbitrary: i)
  case 0
  then have "i = layerCount state" by simp
  then show ?case by (subst setMaterialState_layers.simps) simp
next
  case (Suc n)
  then have i: "i < layerCount state" by simp
  with assms have "i < M" "i < length (layers state)" by simp_all
  from setMaterialState_layers_step [OF i this] Suc.IH [of "Suc i"] Suc.prems i
  show ?case by simp
qed

lemma setMaterialState_layers_result:
  assumes "layerCount state \<le> M" and "layerCount state \<le> length (layers state)"
  shows "setMaterialState_layers M state 0 (LayerUniforms_zero M, firstSlot)
       = Inr (LayerUniforms_prefix M state firstSlot (layerCount state), firstSlot + int (layerCount state))"
  using setMaterialState_layers_from [OF assms refl le0, of firstSlot]
  by (simp add: LayerUniforms_prefix_0)

lemma setTextureSampler_ready:
  assumes "texture_ready (assetMap s) assetID"
  shows "setTextureSampler program textureUnit uniformName assetID s =
     Inr (glcalls [ActiveTexture textureUnit, BindTexture (bound_texture (assetMap s) assetID),
                   Uniform1i program uniformName textureUnit] s)"
  using assms
  by (auto simp add: texture_ready_def setTextureSampler_def setTextureSampler_textureID_def
      assetMap_index_def deref_TextureData_def bind_err_def bound_texture_def)

lemma LayerUniforms_prefix_lengths:
  assumes "k \<le> M" and "k \<le> length (layers state)"
  shows "length (layerSamplerModes (LayerUniforms_prefix M state f k)) = M"
    and "length (layerBlendModes (LayerUniforms_prefix M state f k)) = M"
    and "length (layerMaskTypes (LayerUniforms_prefix M state f k)) = M"
    and "length (layerColors (LayerUniforms_prefix M state f k)) = M"
    and "length (layerSurfaces (LayerUniforms_prefix M state f k)) = M"
    and "length (layerSurfaceIDs (LayerUniforms_prefix M state f k)) = M"
    and "length (layerSurfaceScaleOffsets (LayerUniforms_prefix M state f k)) = M"
    and "length (layerSampleParameters (LayerUniforms_prefix M state f k)) = M"
    and "length (layerMaskParameters (LayerUniforms_prefix M state f k)) = M"
    and "length (layerMaskAxes (LayerUniforms_prefix M state f k)) = M"
  using assms by (simp_all add: LayerUniforms_prefix_def)

lemma LayerUniforms_prefix_ids:
  "set (layerSurfaceIDs (LayerUniforms_prefix M state f k)) - {0}
     = sampleTexture ` set (take k (layers state)) - {0}"
  by (auto simp add: LayerUniforms_prefix_def)

lemma setMaterialState_result:
  fixes state :: "'a::zero ovrAvatarMaterialState"
  assumes M: "M = OVR_AVATAR_MAX_MATERIAL_LAYER_COUNT K"
    and k: "layerCount state \<le> M" "layerCount state \<le> length (layers state)"
    and ready: "texture_ready (assetMap s) (alphaMaskTextureID state)"
      "texture_ready (assetMap s) (normalMapTextureID state)"
      "texture_ready (assetMap s) (parallaxMapTextureID state)"
      "texture_ready (assetMap s) (roughnessMapTextureID state)"
    and nobad: "\<forall>l \<in> set (take (layerCount state) (layers state)). sampleTexture l \<noteq> 0
        \<longrightarrow> (\<forall>d. assetMap s (sampleTexture l) \<noteq> Some (MeshPtr d))"
  shows "setMaterialState K program state projectorInv s =
     Inr (s\<lparr>assetMap := null_inserted (assetMap s) (set (layerSurfaceIDs (expected_LayerUniforms M state))),
            gl := gl s @ fixed_uploads program state projectorInv (elapsedSeconds s) (assetMap s)
                    @ layer_uploads program M (layerCount state) (expected_LayerUniforms M state) (assetMap s)\<rparr>)"
proof -
  let ?T = "LayerUniforms_prefix M state 5 (layerCount state)"
  note len = LayerUniforms_prefix_lengths [OF k, of 5]
  have nb: "\<forall>a \<in> set (take M (layerSurfaceIDs ?T)). a \<noteq> 0
      \<longrightarrow> (\<forall>d. assetMap s a \<noteq> Some (MeshPtr d))"
  proof -
    have "take M (layerSurfaceIDs ?T) = layerSurfaceIDs ?T" using len by simp
    then show ?thesis using nobad by (auto simp add: LayerUniforms_prefix_def)
  qed
  have samplers: "\<And>s1. assetMap s1 = assetMap s \<Longrightarrow>
      setTextureSamplers program ''layerSurfaces'' M (layerSurfaces ?T) (layerSurfaceIDs ?T) s1 =
      Inr (s1\<lparr>assetMap := null_inserted (assetMap s) (set (layerSurfaceIDs ?T)),
              gl := gl s1 @ concat (map (\<lambda>j. [ActiveTexture (layerSurfaces ?T ! j),
                                               BindTexture (bound_texture (assetMap s) (layerSurfaceIDs ?T ! j))])
                                     [0..<M])
                     @ [Uniform1iv program ''layerSurfaces'' (layerSurfaces ?T)]\<rparr>)"
  proof -
    fix s1 :: "'a gstate" assume a: "assetMap s1 = assetMap s"
    have "setTextureSamplers program ''layerSurfaces'' M (layerSurfaces ?T) (layerSurfaceIDs ?T) s1 =
      Inr (s1\<lparr>assetMap := null_inserted (assetMap s1) (set (take M (layerSurfaceIDs ?T))),
              gl := gl s1 @ concat (map (\<lambda>j. [ActiveTexture (layerSurfaces ?T ! j),
                                               BindTexture (bound_texture (assetMap s1) (layerSurfaceIDs ?T ! j))])
                                     [0..<M])
                     @ [Uniform1iv program ''layerSurfaces'' (take M (layerSurfaces ?T))]\<rparr>)"
      by (rule setTextureSamplers_result) (use len nb a in simp_all)
    then show "setTextureSamplers program ''layerSurfaces'' M (layerSurfaces ?T) (layerSurfaceIDs ?T) s1 =
      Inr (s1\<lparr>assetMap := null_inserted (assetMap s) (set (layerSurfaceIDs ?T)),
              gl := gl s1 @ concat (map (\<lambda>j. [ActiveTexture (layerSurfaces ?T ! j),
                                               BindTexture (bound_texture (assetMap s) (layerSurfaceIDs ?T ! j))])
                                     [0..<M])
                     @ [Uniform1iv program ''layerSurfaces'' (layerSurfaces ?T)]\<rparr>)"
      using len a by simp
  qed
  have layers: "setMaterialState_layers M state 0 (LayerUniforms_zero M, 5) = Inr (?T, 5 + int (layerCount state))"
    by (rule setMaterialState_layers_result [OF k])
  show ?thesis
    unfolding setMaterialState_def M [symmetric] Let_def
    by (simp add: ok_def bind_err_def setTextureSampler_ready ready layers samplers len
        expected_LayerUniforms_def fixed_uploads_def layer_uploads_def glcalls_def)
qed

lemma setTextureSampler_not_ready:
  assumes "\<not> texture_ready (assetMap s) assetID"
  shows "setTextureSampler program textureUnit uniformName assetID s = Inl (case assetMap s assetID of Some (MeshPtr d) \<Rightarrow> BadCast | _ \<Rightarrow> NullDeref)"
proof -
  from assms have nz: "assetID \<noteq> 0" and nt: "\<forall>t. assetMap s assetID \<noteq> Some (TexturePtr t)"
    by (simp_all add: texture_ready_def)
  show ?thesis
  proof (cases "assetMap s assetID")
    case None
    with nz show ?thesis
      by (simp add: setTextureSampler_def setTextureSampler_textureID_def assetMap_index_def
          deref_TextureData_def)
  next
    case (Some p)
    with nz nt show ?thesis
      by (cases p) (simp_all add: setTextureSampler_def setTextureSampler_textureID_def assetMap_index_def
          deref_TextureData_def)
  qed
qed

lemma setTextureSamplers_textureID_bad:
  assumes "assetID \<noteq> 0" and "assetMap s assetID = Some (MeshPtr d)"
  shows "setTextureSamplers_textureID assetID s = Inl BadCast"
  using assms
  by (simp add: setTextureSamplers_textureID_def assetMap_index_def deref_TextureData_def)

lemma setTextureSamplers_loop_bad:
  "count - i = n \<Longrightarrow> count \<le> length textureUnits \<Longrightarrow> count \<le> length assetIDs \<Longrightarrow>
   i \<le> j \<Longrightarrow> j < count \<Longrightarrow> assetIDs ! j \<noteq> 0 \<Longrightarrow> assetMap s (assetIDs ! j) = Some (MeshPtr d) \<Longrightarrow>
   setTextureSamplers_loop count textureUnits assetIDs i s = Inl BadCast"
proof (induction n arbitrary: i s)
  case 0
  then show ?case by simp
next
  case (Suc n)
  then have i: "i < count" by simp
  show ?case
  proof (cases "assetIDs ! i \<noteq> 0 \<and> (\<exists>d'. assetMap s (assetIDs ! i) = Some (MeshPtr d'))")
    case True
    then obtain d' where "assetIDs ! i \<noteq> 0" "assetMap s (assetIDs ! i) = Some (MeshPtr d')" by blast
    from setTextureSamplers_textureID_bad [OF this] i Suc.prems(2,3)
    show ?thesis by (subst setTextureSamplers_loop.simps) simp
  next
    case False
    then have nb: "assetIDs ! i \<noteq> 0 \<longrightarrow> (\<forall>d. assetMap s (assetIDs ! i) \<noteq> Some (MeshPtr d))" by blast
    from False Suc.prems(6,7) have "j \<noteq> i" by auto
    with Suc.prems(4) have j: "Suc i \<le> j" by simp
    let ?s1 = "glcalls [ActiveTexture (textureUnits ! i), BindTexture (bound_texture (assetMap s) (assetIDs ! i))]
               (s\<lparr>assetMap := null_inserted (assetMap s) {assetIDs ! i}\<rparr>)"
    have step: "setTextureSamplers_loop count textureUnits assetIDs i s
        = setTextureSamplers_loop count textureUnits assetIDs (Suc i) ?s1"
      using i Suc.prems(2,3)
      by (subst setTextureSamplers_loop.simps) (simp add: setTextureSamplers_textureID_result [OF nb])
    have "assetMap ?s1 (assetIDs ! j) = Some (MeshPtr d)"
      using Suc.prems(7) by simp
    moreover have "count - Suc i = n" using Suc.prems(1) by simp
    ultimately show ?thesis
      unfolding step using Suc.IH [of "Suc i" ?s1] Suc.prems(2,3,5,6) j by blast
  qed
qed

lemma setTextureSamplers_bad:
  assumes "count \<le> length textureUnits" and "count \<le> length assetIDs"
    and "\<not> (\<forall>k \<in> set (take count assetIDs). k \<noteq> 0 \<longrightarrow> (\<forall>d. assetMap s k \<noteq> Some (MeshPtr d)))"
  shows "setTextureSamplers program uniformName count textureUnits assetIDs s = Inl BadCast"
proof -
  from assms(3) obtain k d where k: "k \<in> set (take count assetIDs)" "k \<noteq> 0" "assetMap s k = Some (MeshPtr d)"
    by blast
  from k(1) obtain j where j: "j < count" "assetIDs ! j = k"
    using assms(2) by (auto simp add: in_set_conv_nth)
  from setTextureSamplers_loop_bad [OF refl assms(1,2) le0 j(1), of s d] j(2) k(2,3)
  show ?thesis by (simp add: setTextureSamplers_def)
qed

lemma setMaterialState_returns_only_if:
  fixes state :: "'a::zero ovrAvatarMaterialState"
  assumes M: "M = OVR_AVATAR_MAX_MATERIAL_LAYER_COUNT K"
    and k: "layerCount state \<le> M" "layerCount state \<le> length (layers state)"
    and r: "setMaterialState K program state projectorInv s = Inr s'"
  shows "texture_ready (assetMap s) (alphaMaskTextureID state)
     \<and> texture_ready (assetMap s) (normalMapTextureID state)
     \<and> texture_ready (assetMap s) (parallaxMapTextureID state)
     \<and> texture_ready (assetMap s) (roughnessMapTextureID state)
     \<and> (\<forall>l \<in> set (take (layerCount state) (layers state)). sampleTexture l \<noteq> 0
          \<longrightarrow> (\<forall>d. assetMap s (sampleTexture l) \<noteq> Some (MeshPtr d)))"
proof -
  let ?T = "LayerUniforms_prefix M state 5 (layerCount state)"
  note len = LayerUniforms_prefix_lengths [OF k, of 5]
  have layers: "setMaterialState_layers M state 0 (LayerUniforms_zero M, 5) = Inr (?T, 5 + int (layerCount state))"
    by (rule setMaterialState_layers_result [OF k])
  have r1: "texture_ready (assetMap s) (alphaMaskTextureID state)"
  proof (rule ccontr)
    assume "\<not> ?thesis"
    then show False
      using r unfolding setMaterialState_def M [symmetric] Let_def
      by (simp add: ok_def setTextureSampler_not_ready)
  qed
  have r2: "texture_ready (assetMap s) (normalMapTextureID state)"
  proof (rule ccontr)
    assume "\<not> ?thesis"
    then show False
      using r r1 unfolding setMaterialState_def M [symmetric] Let_def
      by (simp add: ok_def setTextureSampler_not_ready setTextureSampler_ready)
  qed
  have r3: "texture_ready (assetMap s) (parallaxMapTextureID state)"
  proof (rule ccontr)
    assume "\<not> ?thesis"
    then show False
      using r r1 r2 unfolding setMaterialState_def M [symmetric] Let_def
      by (simp add: ok_def setTextureSampler_not_ready setTextureSampler_ready)
  qed
  have r4: "texture_ready (assetMap s) (roughnessMapTextureID state)"
  proof (rule ccontr)
    assume "\<not> ?thesis"
    then show False
      using r r1 r2 r3 unfolding setMaterialState_def M [symmetric] Let_def
      by (simp add: ok_def setTextureSampler_not_ready setTextureSampler_ready)
  qed
  have nb: "\<forall>l \<in> set (take (layerCount state) (layers state)). sampleTexture l \<noteq> 0
          \<longrightarrow> (\<forall>d. assetMap s (sampleTexture l) \<noteq> Some (MeshPtr d))"
  proof (rule ccontr)
    assume a: "\<not> ?thesis"
    have tk: "take M (layerSurfaceIDs ?T) = layerSurfaceIDs ?T" using len by simp
    have bad: "\<not> (\<forall>k \<in> set (take M (layerSurfaceIDs ?T)). k \<noteq> 0 \<longrightarrow> (\<forall>d. assetMap s k \<noteq> Some (MeshPtr d)))"
      using a unfolding tk by (auto simp add: LayerUniforms_prefix_def)
    have "setTextureSamplers program ''layerSurfaces'' M (layerSurfaces ?T) (layerSurfaceIDs ?T) s1 = Inl BadCast"
      if "assetMap s1 = assetMap s" for s1
    proof (rule setTextureSamplers_bad)
      show "M \<le> length (layerSurfaces ?T)" using len by simp
      show "M \<le> length (layerSurfaceIDs ?T)" using len by simp
      show "\<not> (\<forall>k \<in> set (take M (layerSurfaceIDs ?T)). k \<noteq> 0 \<longrightarrow> (\<forall>d. assetMap s1 k \<noteq> Some (MeshPtr d)))"
        using bad that by simp
    qed
    then show False
      using r r1 r2 r3 r4 unfolding setMaterialState_def M [symmetric] Let_def
      by (simp add: ok_def setTextureSampler_ready layers)
  qed
  from r1 r2 r3 r4 nb show ?thesis by blast
qed

lemma expected_LayerUniforms_filled:
  assumes "i < layerCount state" and "layerCount state \<le> M" and "layerCount state \<le> length (layers state)"
  shows "layerSamplerModes (expected_LayerUniforms M state) ! i = sampleMode (layers state ! i)"
    and "layerBlendModes (expected_LayerUniforms M state) ! i = blendMode (layers state ! i)"
    and "layerMaskTypes (expected_LayerUniforms M state) ! i = maskType (layers state ! i)"
    and "layerColors (expected_LayerUniforms M state) ! i = layerColor (layers state ! i)"
    and "layerSurfaces (expected_LayerUniforms M state) ! i = 5 + int i"
    and "layerSurfaceIDs (expected_LayerUniforms M state) ! i = sampleTexture (layers state ! i)"
    and "layerSurfaceScaleOffsets (expected_LayerUniforms M state) ! i = sampleScaleOffset (layers state ! i)"
    and "layerSampleParameters (expected_LayerUniforms M state) ! i = sampleParameters (layers state ! i)"
    and "layerMaskParameters (expected_LayerUniforms M state) ! i = maskParameters (layers state ! i)"
    and "layerMaskAxes (expected_LayerUniforms M state) ! i = maskAxis (layers state ! i)"
  using assms by (simp_all add: expected_LayerUniforms_def LayerUniforms_prefix_def nth_append)

lemma expected_LayerUniforms_unused:
  assumes "layerCount state \<le> i" and "i < M" and "layerCount state \<le> length (layers state)"
  shows "layerSamplerModes (expected_LayerUniforms M state) ! i = 0"
    and "layerBlendModes (expected_LayerUniforms M state) ! i = 0"
    and "layerMaskTypes (expected_LayerUniforms M state) ! i = 0"
    and "layerColors (expected_LayerUniforms M state) ! i = Vec4 0 0 0 0"
    and "layerSurfaces (expected_LayerUniforms M state) ! i = 0"
    and "layerSurfaceIDs (expected_LayerUniforms M state) ! i = 0"
    and "layerSurfaceScaleOffsets (expected_LayerUniforms M state) ! i = Vec4 0 0 0 0"
    and "layerSampleParameters (expected_LayerUniforms M state) ! i = Vec4 0 0 0 0"
    and "layerMaskParameters (expected_LayerUniforms M state) ! i = Vec4 0 0 0 0"
    and "layerMaskAxes (expected_LayerUniforms M state) ! i = Vec4 0 0 0 0"
  using assms by (simp_all add: expected_LayerUniforms_def LayerUniforms_prefix_def nth_append)

text \<open>
  Claim C6. Let the material have \<open>k\<close> layers with \<open>k\<close> at most \<open>M\<close>, the maximum layer
  count, in its array of layers. Whenever \<open>setMaterialState\<close> returns, the GL calls it has
  issued are the fixed uploads followed by the uploads of the layer table \<open>T\<close>, in which
  slot \<open>i < k\<close> carries the values of layer \<open>i\<close> of the material and the texture unit
  \<open>5 + i\<close>, and every slot from \<open>k\<close> up to \<open>M - 1\<close> is zero; the cache gains a null entry
  for each layer texture that was absent. It returns exactly when each of the four single
  maps is 0 or a loaded texture and no layer texture is the id of a mesh. The scalar type
  is arbitrary.
\<close>

theorem setMaterialState_layer_table:
  fixes state :: "'a::zero ovrAvatarMaterialState"
  assumes M: "M = OVR_AVATAR_MAX_MATERIAL_LAYER_COUNT K"
    and k: "layerCount state \<le> M" "layerCount state \<le> length (layers state)"
    and T: "T = expected_LayerUniforms M state"
  shows "(setMaterialState K program state projectorInv s = Inr s') =
     (texture_ready (assetMap s) (alphaMaskTextureID state)
      \<and> texture_ready (assetMap s) (normalMapTextureID state)
      \<and> texture_ready (assetMap s) (parallaxMapTextureID state)
      \<and> texture_ready (assetMap s) (roughnessMapTextureID state)
      \<and> (\<forall>l \<in> set (take (layerCount state) (layers state)). sampleTexture l \<noteq> 0
            \<longrightarrow> (\<forall>d. assetMap s (sampleTexture l) \<noteq> Some (MeshPtr d)))
      \<and> s' = s\<lparr>assetMap := null_inserted (assetMap s) (set (layerSurfaceIDs T)),
            gl := gl s @ fixed_uploads program state projectorInv (elapsedSeconds s) (assetMap s)
                    @ layer_uploads program M (layerCount state) T (assetMap s)\<rparr>)
   \<and> (\<forall>i < layerCount state.
         layerSamplerModes T ! i = sampleMode (layers state ! i)
       \<and> layerBlendModes T ! i = blendMode (layers state ! i)
       \<and> layerMaskTypes T ! i = maskType (layers state ! i)
       \<and> layerColors T ! i = layerColor (layers state ! i)
       \<and> layerSurfaces T ! i = 5 + int i
       \<and> layerSurfaceIDs T ! i = sampleTexture (layers state ! i)
       \<and> layerSurfaceScaleOffsets T ! i = sampleScaleOffset (layers state ! i)
       \<and> layerSampleParameters T ! i = sampleParameters (layers state ! i)
       \<and> layerMaskParameters T ! i = maskParameters (layers state ! i)
       \<and> layerMaskAxes T ! i = maskAxis (layers state ! i))
   \<and> (\<forall>i. layerCount state \<le> i \<and> i < M \<longrightarrow>
         layerSamplerModes T ! i = 0 \<and> layerBlendModes T ! i = 0 \<and> layerMaskTypes T ! i = 0
       \<and> layerColors T ! i = Vec4 0 0 0 0 \<and> layerSurfaces T ! i = 0 \<and> layerSurfaceIDs T ! i = 0
       \<and> layerSurfaceScaleOffsets T ! i = Vec4 0 0 0 0 \<and> layerSampleParameters T ! i = Vec4 0 0 0 0
       \<and> layerMaskParameters T ! i = Vec4 0 0 0 0 \<and> layerMaskAxes T ! i = Vec4 0 0 0 0)
   \<and> length (layerSamplerModes T) = M \<and> length (layerSurfaces T) = M"
proof -
  let ?ok = "texture_ready (assetMap s) (alphaMaskTextureID state)
      \<and> texture_ready (assetMap s) (normalMapTextureID state)
      \<and> texture_ready (assetMap s) (parallaxMapTextureID state)
      \<and> texture_ready (assetMap s) (roughnessMapTextureID state)
      \<and> (\<forall>l \<in> set (take (layerCount state) (layers state)). sampleTexture l \<noteq> 0
            \<longrightarrow> (\<forall>d. assetMap s (sampleTexture l) \<noteq> Some (MeshPtr d)))"
  let ?e = "s\<lparr>assetMap := null_inserted (assetMap s) (set (layerSurfaceIDs T)),
            gl := gl s @ fixed_uploads program state projectorInv (elapsedSeconds s) (assetMap s)
                    @ layer_uploads program M (layerCount state) T (assetMap s)\<rparr>"
  have "(setMaterialState K program state projectorInv s = Inr s') = (?ok \<and> s' = ?e)"
  proof
    assume r: "setMaterialState K program state projectorInv s = Inr s'"
    from setMaterialState_returns_only_if [OF M k r] have c: ?ok .
    then have "setMaterialState K program state projectorInv s = Inr ?e"
      unfolding T by (intro setMaterialState_result [OF M k]) blast+
    with r c show "?ok \<and> s' = ?e" by simp
  next
    assume c: "?ok \<and> s' = ?e"
    then have "setMaterialState K program state projectorInv s = Inr ?e"
      unfolding T by (intro setMaterialState_result [OF M k]) blast+
    with c show "setMaterialState K program state projectorInv s = Inr s'" by simp
  qed
  moreover have "\<forall>i < layerCount state.
         layerSamplerModes T ! i = sampleMode (layers state ! i)
       \<and> layerBlendModes T ! i = blendMode (layers state ! i)
       \<and> layerMaskTypes T ! i = maskType (layers state ! i)
       \<and> layerColors T ! i = layerColor (layers state ! i)
       \<and> layerSurfaces T ! i = 5 + int i
       \<and> layerSurfaceIDs T ! i = sampleTexture (layers state ! i)
       \<and> layerSurfaceScaleOffsets T ! i = sampleScaleOffset (layers state ! i)
       \<and> layerSampleParameters T ! i = sampleParameters (layers state ! i)
       \<and> layerMaskParameters T ! i = maskParameters (layers state ! i)
       \<and> layerMaskAxes T ! i = maskAxis (layers state ! i)"
    using k by (simp add: T expected_LayerUniforms_filled)
  moreover have "\<forall>i. layerCount state \<le> i \<and> i < M \<longrightarrow>
         layerSamplerModes T ! i = 0 \<and> layerBlendModes T ! i = 0 \<and> layerMaskTypes T ! i = 0
       \<and> layerColors T ! i = Vec4 0 0 0 0 \<and> layerSurfaces T ! i = 0 \<and> layerSurfaceIDs T ! i = 0
       \<and> layerSurfaceScaleOffsets T ! i = Vec4 0 0 0 0 \<and> layerSampleParameters T ! i = Vec4 0 0 0 0
       \<and> layerMaskParameters T ! i = Vec4 0 0 0 0 \<and> layerMaskAxes T ! i = Vec4 0 0 0 0"
    using k by (simp add: T expected_LayerUniforms_unused)
  moreover have "length (layerSamplerModes T) = M" "length (layerSurfaces T) = M"
    using k by (simp_all add: T expected_LayerUniforms_def LayerUniforms_prefix_def)
  ultimately show ?thesis by blast
qed

theorem setMaterialState_layer_table_witness:
  "setMaterialState K2 1 material_a None loaded_state =
     Inr (loaded_state\<lparr>assetMap := [9 \<mapsto> TexturePtr \<lparr>textureID = 33\<rparr>, 7 \<mapsto> NullPtr],
            gl := fixed_uploads 1 material_a None 0 (assetMap loaded_state)
                    @ [Uniform1i 1 ''layerCount'' 1,
                       Uniform1iv 1 ''layerSamplerModes'' [2, 0],
                       Uniform1iv 1 ''layerBlendModes'' [1, 0],
                       Uniform1iv 1 ''layerMaskTypes'' [3, 0],
                       Uniform4fv 1 ''layerColors'' [Vec4 1 1 1 1, Vec4 0 0 0 0],
                       ActiveTexture 5, BindTexture 0, ActiveTexture 0, BindTexture 0,
                       Uniform1iv 1 ''layerSurfaces'' [5, 0],
                       Uniform4fv 1 ''layerSurfaceScaleOffsets'' [Vec4 1 1 0 0, Vec4 0 0 0 0],
                       Uniform4fv 1 ''layerSampleParameters'' [Vec4 0 0 0 0, Vec4 0 0 0 0],
                       Uniform4fv 1 ''layerMaskParameters'' [Vec4 0 0 0 0, Vec4 0 0 0 0],
                       Uniform4fv 1 ''layerMaskAxes'' [Vec4 0 1 0 0, Vec4 0 0 0 0]]\<rparr>)"
proof -
  have M: "2 = OVR_AVATAR_MAX_MATERIAL_LAYER_COUNT K2" by (simp add: K2_def)
  have k: "layerCount material_a \<le> 2" "layerCount material_a \<le> length (layers material_a)"
    by (simp_all add: material_a_def)
  have ready: "texture_ready (assetMap loaded_state) (alphaMaskTextureID material_a)"
      "texture_ready (assetMap loaded_state) (normalMapTextureID material_a)"
      "texture_ready (assetMap loaded_state) (parallaxMapTextureID material_a)"
      "texture_ready (assetMap loaded_state) (roughnessMapTextureID material_a)"
    by (simp_all add: texture_ready_def material_a_def loaded_state_def)
  have nobad: "\<forall>l \<in> set (take (layerCount material_a) (layers material_a)). sampleTexture l \<noteq> 0
        \<longrightarrow> (\<forall>d. assetMap loaded_state (sampleTexture l) \<noteq> Some (MeshPtr d))"
    by (simp add: material_a_def layer_a_def loaded_state_def)
  have T: "expected_LayerUniforms 2 material_a = expected_LayerUniforms 2 material_a" ..
  have m: "null_inserted (assetMap loaded_state) {7, 0} = [9 \<mapsto> TexturePtr \<lparr>textureID = 33\<rparr>, 7 \<mapsto> NullPtr]"
    by (auto simp add: null_inserted_def loaded_state_def fun_eq_iff)
  have e: "elapsedSeconds loaded_state = 0" "gl loaded_state = []"
    by (simp_all add: loaded_state_def empty_state_def)
  have b: "bound_texture (assetMap loaded_state) 7 = 0" "bound_texture (assetMap loaded_state) 0 = 0"
    by (simp_all add: bound_texture_def loaded_state_def)
  have u: "[0..<2] = [0, 1]" by (simp add: upt_rec)
  let ?e = "loaded_state\<lparr>assetMap := null_inserted (assetMap loaded_state)
                 (set (layerSurfaceIDs (expected_LayerUniforms 2 material_a))),
            gl := gl loaded_state @ fixed_uploads 1 material_a None (elapsedSeconds loaded_state) (assetMap loaded_state)
                    @ layer_uploads 1 2 (layerCount material_a) (expected_LayerUniforms 2 material_a)
                        (assetMap loaded_state)\<rparr>"
  from setMaterialState_layer_table [OF M k T, of 1 None loaded_state ?e] ready nobad
  have "setMaterialState K2 1 material_a None loaded_state = Inr ?e"
    by blast
  then show ?thesis
    by (simp add: expected_LayerUniforms_def LayerUniforms_prefix_def material_a_def [THEN arg_cong, of layers]
        layer_uploads_def u m e b material_a_def layer_a_def zero_layer_def)
qed

text \<open>
  A whole frame: the avatar has one skinned mesh part whose mesh is loaded and whose
  material has a layer with the texture 7, which is not loaded. Rendering returns, and
  the cache has the key 7 afterwards, with a null pointer.
\<close>

lemma renderSkinnedMeshPart_inserts_layer_texture:
  "\<exists>s'. renderSkinnedMeshPart K2 body_part 1 world mat4_identity mat4_identity (Vec3 0 0 0) False
           frame_state = Inr s'
     \<and> assetMap frame_state 7 = None \<and> assetMap s' 7 = Some NullPtr
     \<and> dom (assetMap s') = insert 7 (dom (assetMap frame_state))"
proof -
  let ?prog = "skinnedMeshProgram frame_state"
  let ?s0 = "glcalls [UseProgram ?prog] frame_state"
  have look: "assetMap_index (sm_meshAssetID body_part) frame_state = (MeshPtr fresh_mesh, frame_state)"
    by (simp add: assetMap_index_def body_part_def frame_state_def)
  have wf: "pose_wellformed (sm_skinnedPose body_part)"
    by (simp add: pose_wellformed_def body_part_def chain3r_def less_Suc_eq numeral_3_eq_3)
  have ib: "jointCount (sm_skinnedPose body_part) \<le> length (inverseBindPose fresh_mesh)"
    by (simp add: body_part_def chain3r_def fresh_mesh_def)
  from setMeshState_result [OF wf ib, of ?prog "sm_localTransform body_part" world mat4_identity
      mat4_identity "Vec3 0 0 0" ?s0]
  obtain cs where s1: "setMeshState ?prog (sm_localTransform body_part) (MeshPtr fresh_mesh)
        (sm_skinnedPose body_part) world mat4_identity mat4_identity (Vec3 0 0 0) ?s0
      = Inr (glcalls cs ?s0)"
    by blast
  let ?s1 = "glcalls cs ?s0"
  have am: "assetMap ?s1 = assetMap frame_state" by simp
  have M: "2 = OVR_AVATAR_MAX_MATERIAL_LAYER_COUNT K2" by (simp add: K2_def)
  have k: "layerCount (sm_materialState body_part) \<le> 2"
    "layerCount (sm_materialState body_part) \<le> length (layers (sm_materialState body_part))"
    by (simp_all add: body_part_def material_a_def)
  have ready: "texture_ready (assetMap ?s1) (alphaMaskTextureID (sm_materialState body_part))"
      "texture_ready (assetMap ?s1) (normalMapTextureID (sm_materialState body_part))"
      "texture_ready (assetMap ?s1) (parallaxMapTextureID (sm_materialState body_part))"
      "texture_ready (assetMap ?s1) (roughnessMapTextureID (sm_materialState body_part))"
    by (simp_all add: texture_ready_def body_part_def material_a_def frame_state_def)
  have nobad: "\<forall>l \<in> set (take (layerCount (sm_materialState body_part)) (layers (sm_materialState body_part))).
        sampleTexture l \<noteq> 0 \<longrightarrow> (\<forall>d. assetMap ?s1 (sampleTexture l) \<noteq> Some (MeshPtr d))"
    by (simp add: body_part_def material_a_def layer_a_def frame_state_def)
  from setMaterialState_result [OF M k ready nobad, of ?prog None]
  obtain cs2 where s2: "setMaterialState K2 ?prog (sm_materialState body_part) None ?s1
      = Inr (?s1\<lparr>assetMap := null_inserted (assetMap frame_state)
                      (set (layerSurfaceIDs (expected_LayerUniforms 2 (sm_materialState body_part)))),
                 gl := cs2\<rparr>)"
    by (simp add: am)
  let ?s2 = "?s1\<lparr>assetMap := null_inserted (assetMap frame_state)
                      (set (layerSurfaceIDs (expected_LayerUniforms 2 (sm_materialState body_part)))),
                 gl := cs2\<rparr>"
  have ids: "set (layerSurfaceIDs (expected_LayerUniforms 2 (sm_materialState body_part))) = {7, 0}"
    by (auto simp add: expected_LayerUniforms_def LayerUniforms_prefix_def body_part_def material_a_def layer_a_def)
  have vis: "sm_visibilityMask body_part AND 1 \<noteq> 0" by (simp add: body_part_def)
  have "renderSkinnedMeshPart K2 body_part 1 world mat4_identity mat4_identity (Vec3 0 0 0) False
           frame_state
      = Inr (glcalls
               ([BindVertexArray (vertexArray fresh_mesh), DepthFunc GL_LESS]
                @ (if sm_visibilityMask body_part AND ovrAvatarVisibilityFlag_SelfOccluding K2 \<noteq> 0
                   then [DepthMask True, ColorMaski 0 False False False False,
                         DrawElements (elementCount fresh_mesh), DepthFunc GL_EQUAL]
                   else [])
                @ [DepthMask False, ColorMaski 0 True True True True,
                   DrawElements (elementCount fresh_mesh), BindVertexArray 0]) ?s2)"
    using vis
    by (simp add: renderSkinnedMeshPart_def look ok_def s1 s2 deref_MeshData_def)
  moreover have "assetMap frame_state 7 = None" by (simp add: frame_state_def)
  moreover have "null_inserted (assetMap frame_state) {7, 0} 7 = Some NullPtr"
    by (simp add: null_inserted_def frame_state_def)
  moreover have "dom (null_inserted (assetMap frame_state) {7, 0}) = insert 7 (dom (assetMap frame_state))"
    by (auto simp add: dom_null_inserted)
  ultimately show ?thesis by (simp add: ids)
qed

lemma renderAvatar_inserts_layer_texture:
  "\<exists>s'. renderAvatar K2 one_part_avatar 1 mat4_identity mat4_identity (Vec3 0 0 0) False frame_state = Inr s'
     \<and> assetMap frame_state 7 = None \<and> assetMap s' 7 = Some NullPtr
     \<and> dom (assetMap s') = insert 7 (dom (assetMap frame_state))"
proof -
  have "renderAvatar K2 one_part_avatar 1 mat4_identity mat4_identity (Vec3 0 0 0) False frame_state
      = renderSkinnedMeshPart K2 body_part 1 (glmFromOvrAvatarTransform identity_transform)
          mat4_identity mat4_identity (Vec3 0 0 0) False frame_state"
    by (simp add: renderAvatar_def ovrAvatarComponent_Count_def one_part_avatar_def
        renderAvatar_components.simps renderAvatar_renderParts.simps ovrAvatarComponent_Get_def
        renderAvatar_renderPart_def Let_def split: sum.splits)
  with renderSkinnedMeshPart_inserts_layer_texture [of "glmFromOvrAvatarTransform identity_transform"]
  show ?thesis by simp
qed

section \<open>Texture loader\<close>

lemma dxt_levelSize_Suc:
  "dxt_levelSize blockSize width height (Suc l) = dxt_levelSize blockSize (width div 2) (height div 2) l"
  by (simp add: dxt_levelSize_def drop_bit_Suc)

lemma dxt_upload_Suc:
  "dxt_upload blockSize glFormat level offset width height (Suc l) =
   (dxt_upload blockSize glFormat (level + 1) (offset + levelSize_DXT blockSize width height)
      (width div 2) (height div 2) l :: 'a gl_call)"
proof -
  have "(\<Sum>i<Suc l. dxt_levelSize blockSize width height i)
      = levelSize_DXT blockSize width height + (\<Sum>i<l. dxt_levelSize blockSize (width div 2) (height div 2) i)"
    by (simp add: sum.lessThan_Suc_shift dxt_levelSize_Suc del: sum.lessThan_Suc) (simp add: dxt_levelSize_def)
  then show ?thesis
    by (simp add: dxt_upload_def dxt_levelSize_Suc drop_bit_Suc add.assoc add.commute)
qed

lemma loadTexture_DXT_trace:
  "unat (mipCount data) - unat level = n \<Longrightarrow>
   loadTexture_DXT data blockSize glFormat (level, offset, width, height) s =
     glcalls (map (dxt_upload blockSize glFormat level offset width height) [0..<n]) s"
proof (induction n arbitrary: level offset width height s)
  case 0
  then have "\<not> level < mipCount data" by (simp add: word_less_nat_alt)
  then show ?case by (subst loadTexture_DXT.simps) (simp add: glcalls_def)
next
  case (Suc n)
  then have lt: "unat level < unat (mipCount data)" by simp
  then have l: "level < mipCount data" by (simp add: word_less_nat_alt)
  have "unat (mipCount data) < 2 ^ 32" using unsigned_less [of "mipCount data"] by simp
  with lt have "unat (level + 1) = Suc (unat level)" by (simp add: unat_word_ariths)
  with Suc.prems have n: "unat (mipCount data) - unat (level + 1) = n" by simp
  have first: "(dxt_upload blockSize glFormat level offset width height 0 :: 'a gl_call)
      = CompressedTexImage2D level glFormat width height (levelSize_DXT blockSize width height) offset"
    by (simp add: dxt_upload_def dxt_levelSize_def)
  have "[0..<Suc n] = 0 # map Suc [0..<n]"
    by (simp add: upt_conv_Cons map_Suc_upt del: upt_Suc)
  then have "map (dxt_upload blockSize glFormat level offset width height) [0..<Suc n]
     = (CompressedTexImage2D level glFormat width height (levelSize_DXT blockSize width height) offset :: 'a gl_call)
       # map (dxt_upload blockSize glFormat (level + 1) (offset + levelSize_DXT blockSize width height)
               (width div 2) (height div 2)) [0..<n]"
    by (simp add: first dxt_upload_Suc comp_def del: upt_Suc)
  then show ?case
    using l Suc.IH [OF n]
    by (subst loadTexture_DXT.simps) (simp add: Let_def glcalls_def del: upt_Suc)
qed

lemma unat_levelSize_DXT:
  "unat (levelSize_DXT blockSize width height) =
     (if unat width < 4 \<or> unat height < 4 then unat blockSize
      else (unat blockSize * (unat width div 4) * (unat height div 4)) mod 2 ^ 32)"
proof -
  have "unat width < 2 ^ 32" "unat height < 2 ^ 32"
    using unsigned_less [of width] unsigned_less [of height] by simp_all
  then have "unat width div 4 < 2 ^ 32" "unat height div 4 < 2 ^ 32"
    by (simp_all add: le_less_trans [OF div_le_dividend])
  then show ?thesis
    by (simp add: levelSize_DXT_def word_less_nat_alt unat_word_ariths unat_div mod_mult_left_eq)
qed

lemma unat_drop_bit32: "unat (drop_bit l (w :: 32 word)) = unat w div 2 ^ l"
  unfolding unat_drop_bit_eq by (simp add: drop_bit_eq_div)

text \<open>
  Claim C7. For a texture of the format DXT1 or DXT5, \<open>loadTexture\<close> binds the texture and
  uploads the levels \<open>0, \<dots>, mipCount - 1\<close> in this order. Level \<open>l\<close> has the width
  \<open>sizeX div 2 ^ l\<close> and the height \<open>sizeY div 2 ^ l\<close>; its byte length is the block size when
  the width or the height is below 4 and otherwise the product of the block size,
  \<open>width div 4\<close> and \<open>height div 4\<close> reduced modulo \<open>2 ^ 32\<close>; its data is read at the offset
  that is the sum, modulo \<open>2 ^ 32\<close>, of the byte lengths of the levels before it. The block
  size is 8 for DXT1 and 16 for DXT5.
\<close>

theorem loadTexture_DXT_levels:
  assumes "format data = ovrAvatarTextureFormat_DXT1 \<or> format data = ovrAvatarTextureFormat_DXT5"
  shows "loadTexture data name s =
      (\<lparr>textureID = name\<rparr>,
       glcalls ([BindTexture name]
                @ map (dxt_upload (blockSize_of (format data)) (glFormat_of (format data)) 0 0
                         (sizeX data) (sizeY data)) [0..<unat (mipCount data)]
                @ [TexParameteri MIN_FILTER_LINEAR, TexParameteri MAG_FILTER_LINEAR,
                   TexParameteri WRAP_S_REPEAT, TexParameteri WRAP_T_REPEAT]) s)
     \<and> unat (blockSize_of (format data)) = (if format data = ovrAvatarTextureFormat_DXT1 then 8 else 16)
     \<and> (\<forall>l. unat (drop_bit l (sizeX data)) = unat (sizeX data) div 2 ^ l
            \<and> unat (drop_bit l (sizeY data)) = unat (sizeY data) div 2 ^ l
            \<and> unat (dxt_levelSize (blockSize_of (format data)) (sizeX data) (sizeY data) l) =
                (if unat (sizeX data) div 2 ^ l < 4 \<or> unat (sizeY data) div 2 ^ l < 4
                 then unat (blockSize_of (format data))
                 else (unat (blockSize_of (format data)) * (unat (sizeX data) div 2 ^ l div 4)
                        * (unat (sizeY data) div 2 ^ l div 4)) mod 2 ^ 32))"
proof (intro conjI allI)
  show "loadTexture data name s =
      (\<lparr>textureID = name\<rparr>,
       glcalls ([BindTexture name]
                @ map (dxt_upload (blockSize_of (format data)) (glFormat_of (format data)) 0 0
                         (sizeX data) (sizeY data)) [0..<unat (mipCount data)]
                @ [TexParameteri MIN_FILTER_LINEAR, TexParameteri MAG_FILTER_LINEAR,
                   TexParameteri WRAP_S_REPEAT, TexParameteri WRAP_T_REPEAT]) s)"
    using assms
    by (auto simp add: loadTexture_def Let_def blockSize_of_def glFormat_of_def glcalls_def
        loadTexture_DXT_trace [where level = 0 and n = "unat (mipCount data)", simplified])
  show "unat (blockSize_of (format data)) = (if format data = ovrAvatarTextureFormat_DXT1 then 8 else 16)"
    by (simp add: blockSize_of_def)
next
  fix l
  show "unat (drop_bit l (sizeX data)) = unat (sizeX data) div 2 ^ l" by (rule unat_drop_bit32)
  show "unat (drop_bit l (sizeY data)) = unat (sizeY data) div 2 ^ l" by (rule unat_drop_bit32)
  show "unat (dxt_levelSize (blockSize_of (format data)) (sizeX data) (sizeY data) l) =
                (if unat (sizeX data) div 2 ^ l < 4 \<or> unat (sizeY data) div 2 ^ l < 4
                 then unat (blockSize_of (format data))
                 else (unat (blockSize_of (format data)) * (unat (sizeX data) div 2 ^ l div 4)
                        * (unat (sizeY data) div 2 ^ l div 4)) mod 2 ^ 32)"
    by (simp only: dxt_levelSize_def unat_levelSize_DXT unat_drop_bit32)
qed

lemma sum_lessThan_2: "(\<Sum>i<(2::nat). f i) = f 0 + (f 1 :: 32 word)"
  by (simp add: numeral_2_eq_2)

text \<open>An 8 by 8 DXT1 texture with three levels: 32, 8 and 8 bytes at the offsets 0, 32 and 40.\<close>

theorem loadTexture_DXT_levels_witness:
  "loadTexture small_dxt1 1 empty_state =
      (\<lparr>textureID = 1\<rparr>,
       glcalls [BindTexture 1,
                CompressedTexImage2D 0 GL_COMPRESSED_RGBA_S3TC_DXT1_EXT 8 8 32 0,
                CompressedTexImage2D 1 GL_COMPRESSED_RGBA_S3TC_DXT1_EXT 4 4 8 32,
                CompressedTexImage2D 2 GL_COMPRESSED_RGBA_S3TC_DXT1_EXT 2 2 8 40,
                TexParameteri MIN_FILTER_LINEAR, TexParameteri MAG_FILTER_LINEAR,
                TexParameteri WRAP_S_REPEAT, TexParameteri WRAP_T_REPEAT] empty_state)"
proof -
  have h: "format small_dxt1 = ovrAvatarTextureFormat_DXT1 \<or> format small_dxt1 = ovrAvatarTextureFormat_DXT5"
    by (simp add: small_dxt1_def)
  have "[0..<unat (3 :: 32 word)] = [0, 1, 2]" by (simp add: upt_rec)
  with loadTexture_DXT_levels [OF h, of 1 empty_state] show ?thesis
    by (simp add: small_dxt1_def blockSize_of_def glFormat_of_def dxt_upload_def dxt_levelSize_def
        levelSize_DXT_def drop_bit_eq_div sum_lessThan_2)
qed

text \<open>
  A DXT5 texture of 65536 by 65536: the product \<open>16 * 16384 * 16384\<close> is \<open>2 ^ 32\<close>, and
  the byte length that is passed to GL is 0.
\<close>

theorem loadTexture_DXT_overflow:
  "loadTexture huge_dxt5 1 empty_state =
     (\<lparr>textureID = 1\<rparr>,
      glcalls [BindTexture 1,
               CompressedTexImage2D 0 GL_COMPRESSED_RGBA_S3TC_DXT5_EXT 65536 65536 0 0,
               TexParameteri MIN_FILTER_LINEAR, TexParameteri MAG_FILTER_LINEAR,
               TexParameteri WRAP_S_REPEAT, TexParameteri WRAP_T_REPEAT] empty_state)
   \<and> (0::nat) \<noteq> 16 * (65536 div 4) * (65536 div 4)"
  by (simp add: loadTexture_def huge_dxt5_def Let_def loadTexture_DXT.simps levelSize_DXT_def glcalls_def)

section \<open>Avatar render traversal\<close>

lemma renderAvatar_renderParts_seq:
  "length (renderParts component) - j = n \<Longrightarrow>
   renderAvatar_renderParts K avatar visibilityMask view proj viewPos renderJoints component world j s =
     seq_err (map (\<lambda>j. renderAvatar_renderPart K avatar visibilityMask world view proj viewPos renderJoints
                          (renderParts component ! j))
                [j..<length (renderParts component)]) s"
proof (induction n arbitrary: j s)
  case 0
  then show ?case by (subst renderAvatar_renderParts.simps) simp
next
  case (Suc n)
  then have j: "j < length (renderParts component)" by simp
  from Suc.prems have "length (renderParts component) - Suc j = n" by simp
  note IH = Suc.IH [OF this]
  show ?case
    using j
    by (subst renderAvatar_renderParts.simps)
       (simp add: upt_conv_Cons IH bind_err_def split: sum.splits)
qed

lemma renderAvatar_components_seq:
  "componentCount - i = n \<Longrightarrow> componentCount \<le> length avatar \<Longrightarrow>
   renderAvatar_components K avatar visibilityMask view proj viewPos renderJoints componentCount i s =
     seq_err (map (\<lambda>i. seq_err (map (\<lambda>j. renderAvatar_renderPart K avatar visibilityMask
                                          (glmFromOvrAvatarTransform (transform (avatar ! i)))
                                          view proj viewPos renderJoints (renderParts (avatar ! i) ! j))
                                  [0..<length (renderParts (avatar ! i))]))
                [i..<componentCount]) s"
proof (induction n arbitrary: i s)
  case 0
  then show ?case by (subst renderAvatar_components.simps) simp
next
  case (Suc n)
  then have i: "i < componentCount" "i < length avatar" by simp_all
  from Suc.prems have "componentCount - Suc i = n" by simp
  note IH = Suc.IH [OF this Suc.prems(2)]
  show ?case
    using i
    by (subst renderAvatar_components.simps)
       (simp add: upt_conv_Cons IH ovrAvatarComponent_Get_def Let_def
          renderAvatar_renderParts_seq [OF refl] bind_err_def split: sum.splits)
qed

lemma seq_err_component_parts:
  "seq_err (map (\<lambda>(i, j). f i j) (component_parts avatar is)) s =
   seq_err (map (\<lambda>i. seq_err (map (f i) [0..<length (renderParts (avatar ! i))])) is) s"
proof -
  have "map (\<lambda>(i, j). f i j) (component_parts avatar is)
      = concat (map (\<lambda>i. map (f i) [0..<length (renderParts (avatar ! i))]) is)"
    by (simp add: component_parts_def map_concat comp_def)
  then show ?thesis by (simp add: seq_err_concat comp_def)
qed

lemma renderAvatar_traversal:
  "renderAvatar K avatar visibilityMask view proj viewPos renderJoints s =
     seq_err (map (\<lambda>(i, j). renderAvatar_renderPart K avatar visibilityMask
                               (glmFromOvrAvatarTransform (transform (avatar ! i)))
                               view proj viewPos renderJoints (renderParts (avatar ! i) ! j))
                (component_parts avatar [0..<ovrAvatarComponent_Count avatar])) s"
  by (simp add: renderAvatar_def ovrAvatarComponent_Count_def seq_err_component_parts
      renderAvatar_components_seq [OF refl])

lemma renderAvatar_hands_renderParts_seq:
  "length (renderParts component) - j = n \<Longrightarrow>
   renderAvatar_hands_renderParts R avatar visibilityMask view proj viewPos isRight component world j s =
     seq_err (map (\<lambda>j. renderAvatar_hands_renderPart R avatar visibilityMask world view proj viewPos isRight
                          (renderParts component ! j))
                [j..<length (renderParts component)]) s"
proof (induction n arbitrary: j s)
  case 0
  then show ?case by (subst renderAvatar_hands_renderParts.simps) simp
next
  case (Suc n)
  then have j: "j < length (renderParts component)" by simp
  from Suc.prems have "length (renderParts component) - Suc j = n" by simp
  note IH = Suc.IH [OF this]
  show ?case
    using j
    by (subst renderAvatar_hands_renderParts.simps)
       (simp add: upt_conv_Cons IH bind_err_def split: sum.splits)
qed

lemma renderAvatar_hands_components_seq:
  "6 - i = n \<Longrightarrow> 6 \<le> length avatar \<Longrightarrow>
   renderAvatar_hands_components R avatar visibilityMask view proj viewPos i s =
     seq_err (map (\<lambda>i. seq_err (map (\<lambda>j. renderAvatar_hands_renderPart R avatar visibilityMask
                                          (glmFromOvrAvatarTransform (transform (avatar ! i)))
                                          view proj viewPos (i = 5) (renderParts (avatar ! i) ! j))
                                  [0..<length (renderParts (avatar ! i))]))
                [i..<6]) s"
proof (induction n arbitrary: i s)
  case 0
  then show ?case by (subst renderAvatar_hands_components.simps) simp
next
  case (Suc n)
  then have i: "i < 6" "i < length avatar" by simp_all
  from Suc.prems have "6 - Suc i = n" by simp
  note IH = Suc.IH [OF this Suc.prems(2)]
  show ?case
    using i
    by (subst renderAvatar_hands_components.simps)
       (simp add: upt_conv_Cons IH ovrAvatarComponent_Get_def Let_def
          renderAvatar_hands_renderParts_seq [OF refl] bind_err_def split: sum.splits)
qed

lemma upt_4_6: "[4..<6] = [4, 5]"
  by (simp add: upt_rec)

lemma renderAvatar_hands_traversal:
  assumes "6 \<le> ovrAvatarComponent_Count avatar"
  shows "renderAvatar_hands R avatar visibilityMask view proj viewPos renderJoints s =
     seq_err (map (\<lambda>(i, j). renderAvatar_hands_renderPart R avatar visibilityMask
                               (glmFromOvrAvatarTransform (transform (avatar ! i)))
                               view proj viewPos (i = 5) (renderParts (avatar ! i) ! j))
                (component_parts avatar [4, 5])) s"
  using assms
  by (simp add: renderAvatar_hands_def ovrAvatarComponent_Count_def seq_err_component_parts
      renderAvatar_hands_components_seq [OF refl] upt_4_6 del: upt_Suc)

text \<open>
  Claim C5. One call of \<open>renderAvatar\<close> of \<^verbatim>\<open>Avatar.cpp\<close> is the sequence, for every
  component \<open>i\<close> from 0 to \<open>componentCount - 1\<close> and every render part \<open>j\<close> of it, in this
  order, of the dispatch of that render part, by its type, to its draw routine with the
  matrix of the transform of component \<open>i\<close> as the world matrix; the sequence ends early
  only when a draw routine stops the program. The \<open>renderAvatar\<close> of the second program
  is the same sequence over the components 4 and 5 only, whatever the number of
  components, provided the avatar has at least six.
\<close>

theorem renderAvatar_visits_components:
  "renderAvatar K avatar visibilityMask view proj viewPos renderJoints s =
     seq_err (map (\<lambda>(i, j). renderAvatar_renderPart K avatar visibilityMask
                               (glmFromOvrAvatarTransform (transform (avatar ! i)))
                               view proj viewPos renderJoints (renderParts (avatar ! i) ! j))
                (component_parts avatar [0..<ovrAvatarComponent_Count avatar])) s
   \<and> (6 \<le> ovrAvatarComponent_Count avatar \<longrightarrow>
        renderAvatar_hands R avatar visibilityMask view proj viewPos renderJoints t =
          seq_err (map (\<lambda>(i, j). renderAvatar_hands_renderPart R avatar visibilityMask
                                    (glmFromOvrAvatarTransform (transform (avatar ! i)))
                                    view proj viewPos (i = 5) (renderParts (avatar ! i) ! j))
                     (component_parts avatar [4, 5])) t)"
  by (intro conjI impI) (rule renderAvatar_traversal, rule renderAvatar_hands_traversal)

theorem renderAvatar_visits_components_witness:
  "6 \<le> ovrAvatarComponent_Count six_components
   \<and> renderAvatar_hands recorder six_components 1 mat4_identity mat4_identity (Vec3 0 0 0) False [] =
       seq_err (map (\<lambda>(i, j). renderAvatar_hands_renderPart recorder six_components 1
                                 (glmFromOvrAvatarTransform (transform (six_components ! i)))
                                 mat4_identity mat4_identity (Vec3 0 0 0) (i = 5)
                                 (renderParts (six_components ! i) ! j))
                  (component_parts six_components [4, 5])) []"
proof -
  have h: "6 \<le> ovrAvatarComponent_Count six_components"
    by (simp add: ovrAvatarComponent_Count_def six_components_def)
  from renderAvatar_visits_components [of _ six_components 1 mat4_identity mat4_identity "Vec3 0 0 0"
      False _ recorder "[]"] h
  show ?thesis by blast
qed

text \<open>
  On an avatar of six components with the meshes 10 to 15 the traversal of the second
  program draws the meshes 14 and 15 and nothing else.
\<close>

theorem renderAvatar_hands_skips:
  "ovrAvatarComponent_Count six_components = 6
   \<and> renderAvatar_hands recorder six_components 1 mat4_identity mat4_identity (Vec3 0 0 0) False []
       = Inr [14, 15]"
proof
  show c: "ovrAvatarComponent_Count six_components = 6"
    by (simp add: ovrAvatarComponent_Count_def six_components_def)
  have "renderAvatar_hands recorder six_components 1 mat4_identity mat4_identity (Vec3 0 0 0) False []
      = seq_err (map (\<lambda>(i, j). renderAvatar_hands_renderPart recorder six_components 1
                                 (glmFromOvrAvatarTransform (transform (six_components ! i)))
                                 mat4_identity mat4_identity (Vec3 0 0 0) (i = 5)
                                 (renderParts (six_components ! i) ! j))
                  (component_parts six_components [4, 5])) []"
    by (rule renderAvatar_hands_traversal) (simp add: c)
  also have "\<dots> = Inr [14, 15]"
    by (simp add: component_parts_def six_components_def pbs_part_def recorder_def
        renderAvatar_hands_renderPart_def)
  finally show "renderAvatar_hands recorder six_components 1 mat4_identity mat4_identity (Vec3 0 0 0) False []
       = Inr [14, 15]" .
qed

end
